theory Spec2Isabelle
  imports Complex_Main "HOL-Library.List_Lexorder" "HOL-Library.Char_ord"
    "HOL-Library.Multiset" "HOL-Library.Log_Nat"
begin

section \<open>Smart Student Hub: score, review, visibility, search and collaboration\<close>

text \<open>
  The application is a React client over a Postgres database with row level security.
  The client functions are embedded as functions over an explicit database state; the
  SQL function and the row level security policies are embedded with SQL's three-valued
  logic, \<open>None\<close> standing for \<open>NULL\<close>.
\<close>

subsection \<open>SQL values\<close>

type_synonym uuid = string
type_synonym timestamp = string
type_synonym sql_bool = "bool option"

definition sql_eq :: "'a option \<Rightarrow> 'a option \<Rightarrow> sql_bool" where
  "sql_eq a b = (case a of None \<Rightarrow> None
                 | Some x \<Rightarrow> (case b of None \<Rightarrow> None | Some y \<Rightarrow> Some (x = y)))"

definition sql_neq :: "'a option \<Rightarrow> 'a option \<Rightarrow> sql_bool" where
  "sql_neq a b = (case a of None \<Rightarrow> None
                  | Some x \<Rightarrow> (case b of None \<Rightarrow> None | Some y \<Rightarrow> Some (x \<noteq> y)))"

definition sql_gt :: "int option \<Rightarrow> int option \<Rightarrow> sql_bool" where
  "sql_gt a b = (case a of None \<Rightarrow> None
                 | Some x \<Rightarrow> (case b of None \<Rightarrow> None | Some y \<Rightarrow> Some (x > y)))"

fun sql_and :: "sql_bool \<Rightarrow> sql_bool \<Rightarrow> sql_bool" where
  "sql_and (Some False) _ = Some False"
| "sql_and _ (Some False) = Some False"
| "sql_and (Some True) (Some True) = Some True"
| "sql_and _ _ = None"

fun sql_or :: "sql_bool \<Rightarrow> sql_bool \<Rightarrow> sql_bool" where
  "sql_or (Some True) _ = Some True"
| "sql_or _ (Some True) = Some True"
| "sql_or (Some False) (Some False) = Some False"
| "sql_or _ _ = None"

definition is_not_null :: "'a option \<Rightarrow> sql_bool" where
  "is_not_null a = Some (a \<noteq> None)"

text \<open>A \<open>WHERE\<close> or \<open>USING\<close> clause keeps a row only when it evaluates to true.\<close>

definition sql_true :: "sql_bool \<Rightarrow> bool" where
  "sql_true b = (b = Some True)"

text \<open>\<open>SUM\<close> skips \<open>NULL\<close> inputs and is \<open>NULL\<close> when no input is left.\<close>

fun sql_sum :: "int option list \<Rightarrow> int option" where
  "sql_sum [] = None"
| "sql_sum (None # vs) = sql_sum vs"
| "sql_sum (Some v # vs) = (case sql_sum vs of None \<Rightarrow> Some v | Some t \<Rightarrow> Some (v + t))"

definition coalesce :: "'a option \<Rightarrow> 'a \<Rightarrow> 'a" where
  "coalesce a d = (case a of None \<Rightarrow> d | Some x \<Rightarrow> x)"

text \<open>
  The ranges of the types \<open>integer\<close> and \<open>bigint\<close>. Postgres does not wrap: a value
  outside the range of its type makes the statement fail.
\<close>

definition int4 :: "int \<Rightarrow> bool" where
  "int4 n = (- 2147483648 \<le> n \<and> n \<le> 2147483647)"

definition int8 :: "int \<Rightarrow> bool" where
  "int8 n = (- 9223372036854775808 \<le> n \<and> n \<le> 9223372036854775807)"

text \<open>\<open>j ->> key\<close> renders a JSON boolean as text.\<close>

definition json_text :: "bool option \<Rightarrow> string option" where
  "json_text j = map_option (\<lambda>b. if b then ''true'' else ''false'') j"

subsection \<open>Tables\<close>

datatype user_type = Student | Faculty

text \<open>
  \<open>profile_visible\<close> and \<open>skills_visible\<close> are the two keys of the \<open>privacy_settings\<close>
  JSON column that the policies read; \<open>None\<close> is a missing key or a \<open>NULL\<close> column.
\<close>

record profile =
  profile_id :: uuid
  user_id :: uuid
  full_name :: string
  email :: string
  user_type :: user_type
  department :: "string option"
  college :: "string option"
  year_of_study :: "int option"
  bio :: "string option"
  profile_visible :: "bool option"
  skills_visible :: "bool option"

datatype doc_status = Pending | Approved | Rejected

record document =
  doc_id :: uuid
  student_id :: uuid
  title :: string
  description :: "string option"
  file_url :: string
  file_type :: string
  file_size :: "int option"
  status :: doc_status
  uploaded_at :: timestamp
  approved_by :: "uuid option"
  approved_at :: "timestamp option"
  rejection_reason :: "string option"
  points_awarded :: "int option"

datatype request_status = Request_Pending | Accepted | Declined

record collaboration_request =
  request_id :: uuid
  requester_id :: uuid
  requested_id :: uuid
  project_title :: string
  project_description :: "string option"
  skills_needed :: "string list"
  request_status :: request_status
  created_at :: timestamp
  updated_at :: timestamp

record skill =
  skill_id :: uuid
  name :: string
  skill_category :: "string option"

record student_skill =
  ss_student_id :: uuid
  ss_skill_id :: uuid
  ss_proficiency_level :: "string option"

text \<open>The database, with the names of the objects held in the \<open>documents\<close> storage bucket.\<close>

record database =
  profiles :: "profile list"
  skills_table :: "skill list"
  student_skills :: "student_skill list"
  documents :: "document list"
  collaboration_requests :: "collaboration_request list"
  storage_objects :: "string list"

datatype error = Error string

subsection \<open>Row level security\<close>

text \<open>
  Permissive policies of one command are joined by \<open>OR\<close>; a row is visible to the caller
  \<open>auth_uid\<close> (the value of \<open>auth.uid()\<close>, \<open>NULL\<close> for an anonymous request) when the
  disjunction is true.

  \<^verbatim>\<open>"Users can view their own profile": USING (auth.uid() = user_id)\<close>
  \<^verbatim>\<open>"Users can view limited public profile data": USING (
    privacy_settings->>'profile_visible' = 'true'
    AND auth.uid() IS NOT NULL AND auth.uid() != user_id)\<close>
\<close>

definition view_own_profile :: "uuid option \<Rightarrow> profile \<Rightarrow> sql_bool" where
  "view_own_profile auth_uid p = sql_eq auth_uid (Some (user_id p))"

definition view_public_profile :: "uuid option \<Rightarrow> profile \<Rightarrow> sql_bool" where
  "view_public_profile auth_uid p =
     sql_and (sql_and (sql_eq (json_text (profile_visible p)) (Some ''true''))
                      (is_not_null auth_uid))
             (sql_neq auth_uid (Some (user_id p)))"

definition can_select_profile :: "uuid option \<Rightarrow> profile \<Rightarrow> bool" where
  "can_select_profile auth_uid p =
     sql_true (sql_or (view_own_profile auth_uid p) (view_public_profile auth_uid p))"

text \<open>\<^verbatim>\<open>EXISTS (SELECT 1 FROM profiles WHERE id = pid AND user_id = auth.uid())\<close>\<close>

definition owns_profile :: "profile list \<Rightarrow> uuid option \<Rightarrow> uuid \<Rightarrow> bool" where
  "owns_profile ps auth_uid pid =
     list_ex (\<lambda>p. sql_true (sql_and (sql_eq (Some (profile_id p)) (Some pid))
                                     (sql_eq (Some (user_id p)) auth_uid))) ps"

text \<open>\<^verbatim>\<open>EXISTS (SELECT 1 FROM profiles WHERE user_id = auth.uid() AND user_type = 'faculty')\<close>\<close>

definition is_faculty :: "profile list \<Rightarrow> uuid option \<Rightarrow> bool" where
  "is_faculty ps auth_uid =
     list_ex (\<lambda>p. sql_true (sql_and (sql_eq (Some (user_id p)) auth_uid)
                                     (sql_eq (Some (user_type p)) (Some Faculty)))) ps"

definition can_select_document :: "profile list \<Rightarrow> uuid option \<Rightarrow> document \<Rightarrow> bool" where
  "can_select_document ps auth_uid d =
     (sql_true (is_not_null auth_uid) \<and>
      (owns_profile ps auth_uid (student_id d) \<or> is_faculty ps auth_uid))"

text \<open>
  An \<open>UPDATE\<close> with a \<open>WHERE\<close> clause touches the rows that pass the \<open>SELECT\<close> policies
  and the \<open>UPDATE\<close> policy; the latter asks for a faculty caller and nothing else.
\<close>

definition can_update_document :: "profile list \<Rightarrow> uuid option \<Rightarrow> document \<Rightarrow> bool" where
  "can_update_document ps auth_uid d =
     (can_select_document ps auth_uid d \<and>
      sql_true (is_not_null auth_uid) \<and> is_faculty ps auth_uid)"

definition can_insert_document :: "profile list \<Rightarrow> uuid option \<Rightarrow> document \<Rightarrow> bool" where
  "can_insert_document ps auth_uid d =
     (sql_true (is_not_null auth_uid) \<and> owns_profile ps auth_uid (student_id d))"

text \<open>
  \<^verbatim>\<open>"Users can view their own collaboration requests": USING (auth.uid() IN (
    SELECT user_id FROM profiles WHERE id = requester_id
    UNION SELECT user_id FROM profiles WHERE id = requested_id))\<close>
  \<^verbatim>\<open>"Users can update their received requests": USING (EXISTS (
    SELECT 1 FROM profiles WHERE id = requested_id AND user_id = auth.uid()))\<close>
\<close>

definition can_select_request ::
  "profile list \<Rightarrow> uuid option \<Rightarrow> collaboration_request \<Rightarrow> bool" where
  "can_select_request ps auth_uid r =
     list_ex (\<lambda>u. sql_true (sql_eq auth_uid (Some u)))
       (map user_id (filter (\<lambda>p. profile_id p = requester_id r) ps) @
        map user_id (filter (\<lambda>p. profile_id p = requested_id r) ps))"

definition can_update_request ::
  "profile list \<Rightarrow> uuid option \<Rightarrow> collaboration_request \<Rightarrow> bool" where
  "can_update_request ps auth_uid r =
     (can_select_request ps auth_uid r \<and> owns_profile ps auth_uid (requested_id r))"

subsection \<open>Document review: \<open>handleApproval\<close>\<close>

text \<open>
  \<open>fetchFacultyProfile\<close> loads the caller's own profile row (\<open>.eq('user_id', user.id)
  .single()\<close>); the component keeps it as \<open>facultyProfile\<close>, or keeps \<open>null\<close> when the
  query does not return exactly one row.
\<close>

definition fetchFacultyProfile :: "database \<Rightarrow> uuid option \<Rightarrow> profile option" where
  "fetchFacultyProfile db auth_uid =
     (case filter (\<lambda>p. can_select_profile auth_uid p \<and>
                        sql_true (sql_eq (Some (user_id p)) auth_uid)) (profiles db) of
        [p] \<Rightarrow> Some p
      | _ \<Rightarrow> None)"

text \<open>JavaScript truthiness of an optional string and of an optional number.\<close>

definition truthy_string :: "string option \<Rightarrow> bool" where
  "truthy_string s = (case s of None \<Rightarrow> False | Some t \<Rightarrow> t \<noteq> [])"

definition truthy_number :: "int option \<Rightarrow> bool" where
  "truthy_number n = (case n of None \<Rightarrow> False | Some k \<Rightarrow> k \<noteq> 0)"

text \<open>
  The object passed to \<open>.update\<close>: status, reviewer and time always; the rejection
  reason when \<open>reason\<close> is truthy; the points when \<open>approved && points\<close> is truthy.
\<close>

definition approval_update ::
  "uuid \<Rightarrow> timestamp \<Rightarrow> bool \<Rightarrow> string option \<Rightarrow> int option \<Rightarrow> document \<Rightarrow> document" where
  "approval_update faculty_id now approved reason points d =
     (let d1 = d\<lparr>status := (if approved then Approved else Rejected),
                  approved_by := Some faculty_id,
                  approved_at := Some now\<rparr>;
          d2 = (if truthy_string reason then d1\<lparr>rejection_reason := reason\<rparr> else d1)
      in if approved \<and> truthy_number points then d2\<lparr>points_awarded := points\<rparr> else d2)"

text \<open>
  \<open>points_awarded\<close> is an \<open>integer\<close> column. The object passed to \<open>.update\<close> is
  converted to the column types when a row is written, so a points value outside the
  range of \<open>integer\<close> makes the update of a row fail with \<open>integer out of range\<close>.
\<close>

definition points_refused :: "bool \<Rightarrow> int option \<Rightarrow> bool" where
  "points_refused approved points =
     (case points of None \<Rightarrow> False | Some n \<Rightarrow> approved \<and> n \<noteq> 0 \<and> \<not> int4 n)"

text \<open>
  \<open>handleApproval(documentId, approved, reason?, points?)\<close> throws when no profile is
  loaded; otherwise it updates the rows \<open>.eq('id', documentId)\<close> that row level
  security lets the caller update, and rethrows the error of the update
  (\<open>if (error) throw error\<close>). An update that matches no row is not an error.
\<close>

definition handleApproval ::
  "database \<Rightarrow> uuid option \<Rightarrow> timestamp \<Rightarrow> uuid \<Rightarrow> bool \<Rightarrow> string option \<Rightarrow> int option
     \<Rightarrow> error + database" where
  "handleApproval db auth_uid now documentId approved reason points =
     (case fetchFacultyProfile db auth_uid of
        None \<Rightarrow> Inl (Error ''Faculty profile not found. Please refresh the page.'')
      | Some facultyProfile \<Rightarrow>
          (let touched = (\<lambda>d. doc_id d = documentId \<and>
                               can_update_document (profiles db) auth_uid d)
           in if points_refused approved points \<and> list_ex touched (documents db)
              then Inl (Error ''integer out of range'')
              else
                Inr (db\<lparr>documents :=
                       map (\<lambda>d. if touched d
                                 then approval_update (profile_id facultyProfile) now
                                        approved reason points d
                                 else d)
                           (documents db)\<rparr>)))"

text \<open>
  The approve form: \<open>parseInt(formData.get('points')) || 0\<close>, where \<open>parsed\<close> is the
  integer read from the input, or \<open>None\<close> for \<open>NaN\<close> (an empty input).
\<close>

definition approveFormSubmit ::
  "database \<Rightarrow> uuid option \<Rightarrow> timestamp \<Rightarrow> uuid \<Rightarrow> int option \<Rightarrow> error + database" where
  "approveFormSubmit db auth_uid now documentId parsed =
     handleApproval db auth_uid now documentId True None
       (Some (case parsed of None \<Rightarrow> 0 | Some n \<Rightarrow> n))"

subsection \<open>Collaboration requests: \<open>updateRequestStatus\<close>\<close>

text \<open>\<^verbatim>\<open>CHECK (status IN ('pending', 'accepted', 'declined'))\<close>\<close>

definition parse_request_status :: "string \<Rightarrow> request_status option" where
  "parse_request_status s =
     (if s = ''pending'' then Some Request_Pending
      else if s = ''accepted'' then Some Accepted
      else if s = ''declined'' then Some Declined
      else None)"

text \<open>
  \<open>updateRequestStatus(requestId, status)\<close> is \<open>.update({ status }).eq('id', requestId)\<close>.
  The rows it touches are those the caller may update; the check constraint is tested
  on touched rows only, and the trigger stamps \<open>updated_at\<close>.
\<close>

definition updateRequestStatus ::
  "database \<Rightarrow> uuid option \<Rightarrow> timestamp \<Rightarrow> uuid \<Rightarrow> string \<Rightarrow> error + database" where
  "updateRequestStatus db auth_uid now requestId new_status =
     (let touched = (\<lambda>r. request_id r = requestId \<and>
                          can_update_request (profiles db) auth_uid r)
      in if \<not> list_ex touched (collaboration_requests db) then Inr db
         else case parse_request_status new_status of
                None \<Rightarrow> Inl (Error ''violates check constraint'')
              | Some st \<Rightarrow>
                  Inr (db\<lparr>collaboration_requests :=
                         map (\<lambda>r. if touched r
                                   then r\<lparr>request_status := st, updated_at := now\<rparr>
                                   else r)
                             (collaboration_requests db)\<rparr>))"

subsection \<open>Document upload: \<open>handleFileUpload\<close>\<close>

record upload_file =
  file_name :: string
  mime_type :: string
  byte_size :: int

text \<open>
  The outcomes of the calls that leave the client: whether the storage upload and the
  metadata insert report an error of their own, and whether the storage service really
  deletes an object it is asked to remove. \<open>new_document_id\<close> is the value of
  \<open>gen_random_uuid()\<close>, \<open>storage_base_url\<close> the prefix of \<open>getPublicUrl\<close>.
\<close>

record services =
  upload_error :: "error option"
  insert_error :: "error option"
  remove_succeeds :: bool
  new_document_id :: uuid
  storage_base_url :: string

datatype upload_outcome =
  Profile_Not_Found | No_File_Selected | Upload_Failed error | Document_Uploaded

text \<open>\<open>file.name.split('.').pop()\<close>: the text after the last dot, or the whole name.\<close>

definition fileExt :: "string \<Rightarrow> string" where
  "fileExt n = rev (takeWhile (\<lambda>c. c \<noteq> CHR ''.'') (rev n))"

text \<open>\<open>`${user?.id}/${Date.now()}.${fileExt}`\<close>, with \<open>now_ms\<close> the digits of \<open>Date.now()\<close>.\<close>

definition storageFileName :: "uuid option \<Rightarrow> string \<Rightarrow> string \<Rightarrow> string" where
  "storageFileName auth_uid now_ms n =
     (case auth_uid of None \<Rightarrow> ''undefined'' | Some u \<Rightarrow> u) @ ''/'' @ now_ms @ ''.'' @ fileExt n"

text \<open>
  \<open>storage.upload(fileName, file, { upsert: false })\<close>: refused for an anonymous caller
  (the folder must be the caller's id) and for a name that exists already.
\<close>

definition storage_upload :: "services \<Rightarrow> database \<Rightarrow> uuid option \<Rightarrow> string \<Rightarrow> error + database" where
  "storage_upload sv db auth_uid fileName =
     (case upload_error sv of
        Some e \<Rightarrow> Inl e
      | None \<Rightarrow>
          if auth_uid = None then Inl (Error ''new row violates row-level security policy'')
          else if fileName \<in> set (storage_objects db) then
            Inl (Error ''The resource already exists'')
          else Inr (db\<lparr>storage_objects := fileName # storage_objects db\<rparr>))"

text \<open>
  \<open>.from('documents').insert(documentData)\<close>: \<open>file_size\<close> is an \<open>integer\<close> column, and
  the new row has to pass the \<open>INSERT\<close> policy.
\<close>

definition documents_insert :: "services \<Rightarrow> database \<Rightarrow> uuid option \<Rightarrow> document \<Rightarrow> error + database" where
  "documents_insert sv db auth_uid d =
     (case insert_error sv of
        Some e \<Rightarrow> Inl e
      | None \<Rightarrow>
          if (case file_size d of None \<Rightarrow> False | Some n \<Rightarrow> \<not> int4 n) then
            Inl (Error ''integer out of range'')
          else if \<not> can_insert_document (profiles db) auth_uid d then
            Inl (Error ''new row violates row-level security policy'')
          else Inr (db\<lparr>documents := d # documents db\<rparr>))"

definition storage_remove :: "services \<Rightarrow> database \<Rightarrow> string list \<Rightarrow> database" where
  "storage_remove sv db names =
     (if remove_succeeds sv
      then db\<lparr>storage_objects := filter (\<lambda>n. n \<notin> set names) (storage_objects db)\<rparr>
      else db)"

text \<open>
  \<open>handleFileUpload\<close>: upload, then insert the metadata row; when the insert fails, call
  \<open>storage.remove([fileName])\<close>, whose result is dropped, and rethrow the insert's error.
\<close>

definition handleFileUpload ::
  "services \<Rightarrow> database \<Rightarrow> uuid option \<Rightarrow> profile option \<Rightarrow> upload_file option \<Rightarrow> string
     \<Rightarrow> string option \<Rightarrow> string \<Rightarrow> timestamp \<Rightarrow> upload_outcome \<times> database" where
  "handleFileUpload sv db auth_uid profile_prop file title_in description_in now_ms now =
     (case profile_prop of
        None \<Rightarrow> (Profile_Not_Found, db)
      | Some prof \<Rightarrow>
         (case file of
            None \<Rightarrow> (No_File_Selected, db)
          | Some f \<Rightarrow>
             (let fileName = storageFileName auth_uid now_ms (file_name f)
              in case storage_upload sv db auth_uid fileName of
                   Inl uploadError \<Rightarrow> (Upload_Failed uploadError, db)
                 | Inr db1 \<Rightarrow>
                    (let documentData =
                           \<lparr>doc_id = new_document_id sv,
                            student_id = profile_id prof,
                            title = title_in,
                            description = description_in,
                            file_url = storage_base_url sv @ fileName,
                            file_type = mime_type f,
                            file_size = Some (byte_size f),
                            status = Pending,
                            uploaded_at = now,
                            approved_by = None,
                            approved_at = None,
                            rejection_reason = None,
                            points_awarded = Some 0\<rparr>
                     in case documents_insert sv db1 auth_uid documentData of
                          Inl dbError \<Rightarrow>
                            (Upload_Failed dbError, storage_remove sv db1 [fileName])
                        | Inr db2 \<Rightarrow> (Document_Uploaded, db2)))))"

subsection \<open>Student search: \<open>fetchStudents\<close> and \<open>filterStudents\<close>\<close>

text \<open>
  \<^verbatim>\<open>"Students can view their own skills": USING (EXISTS (SELECT 1 FROM profiles
    WHERE profiles.id = student_skills.student_id AND profiles.user_id = auth.uid()))\<close>
  \<^verbatim>\<open>"Others can view skills if privacy allows": USING (auth.uid() IS NOT NULL
    AND EXISTS (SELECT 1 FROM profiles WHERE profiles.id = student_skills.student_id
      AND profiles.privacy_settings->>'skills_visible' = 'true'))\<close>
  The subquery of a policy sees the profiles the caller may read.
\<close>

definition can_select_student_skill ::
  "profile list \<Rightarrow> uuid option \<Rightarrow> student_skill \<Rightarrow> bool" where
  "can_select_student_skill ps auth_uid ss =
     (owns_profile ps auth_uid (ss_student_id ss) \<or>
      (sql_true (is_not_null auth_uid) \<and>
       list_ex (\<lambda>p. sql_true (sql_and
                       (sql_eq (Some (profile_id p)) (Some (ss_student_id ss)))
                       (sql_eq (json_text (skills_visible p)) (Some ''true''))))
               (filter (can_select_profile auth_uid) ps)))"

record skill_entry =
  skill_name :: string
  proficiency_level :: "string option"
  category :: string

text \<open>A \<open>Student\<close> is the profile row with its skills and its points added.\<close>

record student = profile +
  skills :: "skill_entry list"
  achievement_points :: int

text \<open>
  The embedded \<open>student_skills(skills(name, category), proficiency_level)\<close> of a profile
  row, mapped to \<open>{ skill_name: ss.skills?.name || '', proficiency_level,
  category: ss.skills?.category || '' }\<close>.
\<close>

definition embedded_skills :: "database \<Rightarrow> uuid option \<Rightarrow> profile \<Rightarrow> skill_entry list" where
  "embedded_skills db auth_uid p =
     map (\<lambda>ss. case find (\<lambda>k. skill_id k = ss_skill_id ss) (skills_table db) of
                  None \<Rightarrow> \<lparr>skill_name = [], proficiency_level = ss_proficiency_level ss,
                            category = []\<rparr>
                | Some k \<Rightarrow> \<lparr>skill_name = name k,
                              proficiency_level = ss_proficiency_level ss,
                              category = (case skill_category k of None \<Rightarrow> [] | Some c \<Rightarrow> c)\<rparr>)
         (filter (\<lambda>ss. ss_student_id ss = profile_id p \<and>
                        can_select_student_skill (profiles db) auth_uid ss)
                 (student_skills db))"

text \<open>
  The points query of \<open>fetchStudents\<close>: the rows of \<open>documents\<close> the caller may read with
  \<open>.eq('student_id', student.id).eq('status', 'approved')\<close>, summed by
  \<open>reduce((sum, doc) => sum + (doc.points_awarded || 0), 0)\<close>.
\<close>

definition totalPoints :: "database \<Rightarrow> uuid option \<Rightarrow> profile \<Rightarrow> int" where
  "totalPoints db auth_uid p =
     fold (\<lambda>doc sum. sum + (case points_awarded doc of None \<Rightarrow> 0 | Some n \<Rightarrow> n))
          (filter (\<lambda>d. can_select_document (profiles db) auth_uid d \<and>
                        student_id d = profile_id p \<and> status d = Approved)
                  (documents db))
          0"

text \<open>
  \<open>fetchStudents\<close>: the readable profile rows with \<open>.eq('user_type', 'student')
  .eq('privacy_settings->profile_visible', 'true')\<close>, in the order the store returns them.
\<close>

definition fetchStudents :: "database \<Rightarrow> uuid option \<Rightarrow> student list" where
  "fetchStudents db auth_uid =
     map (\<lambda>p. profile.extend p
                 (student.fields (embedded_skills db auth_uid p) (totalPoints db auth_uid p)))
         (filter (\<lambda>p. can_select_profile auth_uid p \<and> user_type p = Student \<and>
                       sql_true (sql_eq (profile_visible p) (Some True)))
                 (profiles db))"

text \<open>\<open>toLowerCase\<close> and \<open>includes\<close> on ASCII text.\<close>

definition lower_char :: "char \<Rightarrow> char" where
  "lower_char c = (if CHR ''A'' \<le> c \<and> c \<le> CHR ''Z''
                   then char_of (of_char c + (32::nat)) else c)"

definition toLowerCase :: "string \<Rightarrow> string" where
  "toLowerCase s = map lower_char s"

fun starts_with :: "string \<Rightarrow> string \<Rightarrow> bool" where
  "starts_with s [] = True"
| "starts_with [] (y # ys) = False"
| "starts_with (x # xs) (y # ys) = (x = y \<and> starts_with xs ys)"

fun includes_text :: "string \<Rightarrow> string \<Rightarrow> bool" where
  "includes_text [] t = (t = [])"
| "includes_text (x # xs) t = (starts_with (x # xs) t \<or> includes_text xs t)"

definition matches_search :: "string \<Rightarrow> student \<Rightarrow> bool" where
  "matches_search searchTerm st =
     (includes_text (toLowerCase (full_name st)) (toLowerCase searchTerm) \<or>
      includes_text (toLowerCase (email st)) (toLowerCase searchTerm) \<or>
      (case bio st of None \<Rightarrow> False
       | Some b \<Rightarrow> includes_text (toLowerCase b) (toLowerCase searchTerm)) \<or>
      list_ex (\<lambda>sk. includes_text (toLowerCase (skill_name sk)) (toLowerCase searchTerm))
              (skills st))"

text \<open>
  The comparator handed to \<open>sort\<close>. \<open>localeCompare\<close> is the runtime's
  \<open>String.prototype.localeCompare\<close>, a function of the platform and its locale, not of
  the repository: it is a parameter.
\<close>

definition compareStudents :: "(string \<Rightarrow> string \<Rightarrow> int) \<Rightarrow> student \<Rightarrow> student \<Rightarrow> int" where
  "compareStudents localeCompare a b =
     (if achievement_points b \<noteq> achievement_points a
      then achievement_points b - achievement_points a
      else localeCompare (full_name a) (full_name b))"

text \<open>
  \<open>Array.prototype.sort\<close> is stable: an element goes before the first element it does
  not compare greater than. It is specified for comparators that are consistent.
\<close>

fun sort_insert :: "('a \<Rightarrow> 'a \<Rightarrow> int) \<Rightarrow> 'a \<Rightarrow> 'a list \<Rightarrow> 'a list" where
  "sort_insert cmp x [] = [x]"
| "sort_insert cmp x (y # ys) =
     (if cmp x y \<le> 0 then x # y # ys else y # sort_insert cmp x ys)"

definition array_sort :: "('a \<Rightarrow> 'a \<Rightarrow> int) \<Rightarrow> 'a list \<Rightarrow> 'a list" where
  "array_sort cmp xs = foldr (sort_insert cmp) xs []"

definition consistent_comparator :: "('a \<Rightarrow> 'a \<Rightarrow> int) \<Rightarrow> bool" where
  "consistent_comparator cmp =
     ((\<forall>a b. cmp a b \<le> 0 \<or> cmp b a \<le> 0) \<and>
      (\<forall>a b c. cmp a b \<le> 0 \<and> cmp b c \<le> 0 \<longrightarrow> cmp a c \<le> 0))"

text \<open>The value of \<open>filtered\<close> when \<open>filterStudents\<close> reaches the sort.\<close>

definition filteredStudents ::
  "student list \<Rightarrow> string \<Rightarrow> string \<Rightarrow> string \<Rightarrow> string \<Rightarrow> student list" where
  "filteredStudents students searchTerm selectedDepartment selectedCollege selectedSkill =
     (let by_term = (if searchTerm \<noteq> [] then filter (matches_search searchTerm) students
                     else students);
          by_department = (if selectedDepartment \<noteq> ''all''
                           then filter (\<lambda>st. department st = Some selectedDepartment) by_term
                           else by_term);
          by_college = (if selectedCollege \<noteq> ''all''
                        then filter (\<lambda>st. college st = Some selectedCollege) by_department
                        else by_department)
      in if selectedSkill \<noteq> ''all''
         then filter (\<lambda>st. list_ex (\<lambda>sk. skill_name sk = selectedSkill) (skills st))
                     by_college
         else by_college)"

definition filterStudents ::
  "(string \<Rightarrow> string \<Rightarrow> int) \<Rightarrow> student list \<Rightarrow> string \<Rightarrow> string \<Rightarrow> string \<Rightarrow> string
     \<Rightarrow> student list" where
  "filterStudents localeCompare students searchTerm selectedDepartment selectedCollege
       selectedSkill =
     array_sort (compareStudents localeCompare)
       (filteredStudents students searchTerm selectedDepartment selectedCollege
          selectedSkill)"

text \<open>
  Two students tie when the comparator puts neither before the other: equal points and
  names that \<open>localeCompare\<close> does not tell apart.
\<close>

definition tied :: "(string \<Rightarrow> string \<Rightarrow> int) \<Rightarrow> student \<Rightarrow> student \<Rightarrow> bool" where
  "tied localeCompare a b =
     (compareStudents localeCompare a b \<le> 0 \<and> compareStudents localeCompare b a \<le> 0)"

text \<open>
  The order the specification asks for among equal scores: ordinal, that is by character
  code, which on lists of characters is the lexicographic order.
\<close>

definition ordinal_ranking :: "student \<Rightarrow> student \<Rightarrow> bool" where
  "ordinal_ranking a b =
     (achievement_points a > achievement_points b \<or>
      (achievement_points a = achievement_points b \<and> full_name a \<le> full_name b))"

text \<open>
  For the concrete cases, the comparison that the default collation of the common
  JavaScript runtimes (the Unicode root collation) makes between strings of ASCII
  letters: alphabetical without regard to case first; strings equal up to case are
  then ordered at the first difference in case, lower case first.
\<close>

definition case_weights :: "string \<Rightarrow> nat list" where
  "case_weights s = map (\<lambda>c. if CHR ''A'' \<le> c \<and> c \<le> CHR ''Z'' then 1 else 0) s"

definition root_collation :: "string \<Rightarrow> string \<Rightarrow> int" where
  "root_collation a b =
     (if toLowerCase a < toLowerCase b then - 1
      else if toLowerCase b < toLowerCase a then 1
      else if case_weights a < case_weights b then - 1
      else if case_weights b < case_weights a then 1
      else 0)"

subsection \<open>Score aggregation: \<open>get_student_achievement_points\<close>\<close>

text \<open>
  \<^verbatim>\<open>SELECT COALESCE(SUM(points_awarded), 0) FROM documents
  WHERE student_id = student_profile_id AND status = 'approved' AND points_awarded > 0\<close>
\<close>

definition achievement_where :: "uuid \<Rightarrow> document \<Rightarrow> sql_bool" where
  "achievement_where student_profile_id d =
     sql_and (sql_and (sql_eq (Some (student_id d)) (Some student_profile_id))
                      (sql_eq (Some (status d)) (Some Approved)))
             (sql_gt (points_awarded d) (Some 0))"

text \<open>
  \<open>SUM\<close> over the \<open>integer\<close> column is a \<open>bigint\<close>, and the function is declared
  \<open>RETURNS integer\<close>: the call fails when the sum leaves either range. The summands
  are positive, so the running sum leaves a range exactly when the final sum does.
\<close>

definition get_student_achievement_points :: "document list \<Rightarrow> uuid \<Rightarrow> error + int" where
  "get_student_achievement_points docs student_profile_id =
     (let total = coalesce (sql_sum (map points_awarded
            (filter (\<lambda>d. sql_true (achievement_where student_profile_id d)) docs))) 0
      in if \<not> int8 total then Inl (Error ''bigint out of range'')
         else if \<not> int4 total then Inl (Error ''integer out of range'')
         else Inr total)"

text \<open>
  The sum as the specification words it: over the documents of the student that are
  approved and carry a positive number of points.
\<close>

definition counts_towards_score :: "uuid \<Rightarrow> document \<Rightarrow> bool" where
  "counts_towards_score s d =
     (student_id d = s \<and> status d = Approved \<and>
      (case points_awarded d of None \<Rightarrow> False | Some n \<Rightarrow> 0 < n))"

definition totalScore_spec :: "document list \<Rightarrow> uuid \<Rightarrow> int" where
  "totalScore_spec docs s =
     sum_list (map (\<lambda>d. case points_awarded d of None \<Rightarrow> 0 | Some n \<Rightarrow> n)
                   (filter (counts_towards_score s) docs))"

subsection \<open>JavaScript numbers\<close>

text \<open>
  A JavaScript number is an IEEE-754 double, held here as the rational number it
  denotes. \<open>/\<close> and \<open>*\<close> return the double nearest to the exact result, a tie going to
  the even significand: the exact result is scaled to a significand of 53 bits, rounded
  to an integer and scaled back. The embedding covers results in the normal range (no
  overflow, no subnormal numbers, no \<open>NaN\<close>), which no operation of \<open>getPointsLevel\<close>
  on a score of the \<open>integer\<close> column leaves.
\<close>

definition binade :: "rat \<Rightarrow> int" where
  "binade x =
     (case quotient_of \<bar>x\<bar> of
        (a, b) \<Rightarrow> (let k = bitlen a - bitlen b in if 2 powi k \<le> \<bar>x\<bar> then k else k - 1))"

definition round_half_even :: "rat \<Rightarrow> int" where
  "round_half_even q =
     (let f = \<lfloor>q\<rfloor>; r = q - of_int f
      in if r < 1 / 2 then f else if 1 / 2 < r then f + 1
         else if even f then f else f + 1)"

definition to_double :: "rat \<Rightarrow> rat" where
  "to_double x =
     (if x = 0 then 0
      else of_int (round_half_even (x / 2 powi (binade x - 52))) * 2 powi (binade x - 52))"

definition js_divide :: "rat \<Rightarrow> rat \<Rightarrow> rat" where
  "js_divide a b = to_double (a / b)"

definition js_times :: "rat \<Rightarrow> rat \<Rightarrow> rat" where
  "js_times a b = to_double (a * b)"

subsection \<open>Levels: \<open>getPointsLevel\<close>\<close>

record points_level =
  level :: string
  color :: string
  progress :: rat

definition getPointsLevel :: "int \<Rightarrow> points_level" where
  "getPointsLevel points =
     (if points \<ge> 1000 then
        \<lparr>level = ''Expert'', color = ''text-purple-600'', progress = 100\<rparr>
      else if points \<ge> 500 then
        \<lparr>level = ''Advanced'', color = ''text-blue-600'',
         progress = js_times (js_divide (of_int points) 1000) 100\<rparr>
      else if points \<ge> 200 then
        \<lparr>level = ''Intermediate'', color = ''text-green-600'',
         progress = js_times (js_divide (of_int points) 500) 100\<rparr>
      else if points \<ge> 50 then
        \<lparr>level = ''Beginner'', color = ''text-yellow-600'',
         progress = js_times (js_divide (of_int points) 200) 100\<rparr>
      else
        \<lparr>level = ''Newcomer'', color = ''text-gray-600'',
         progress = js_times (js_divide (of_int points) 50) 100\<rparr>)"

text \<open>
  The upper bound of the band that holds a score, as the specification lists the bands:
  [0,50), [50,200), [200,500), [500,1000).
\<close>

definition upperBoundOfCurrentBand :: "int \<Rightarrow> rat" where
  "upperBoundOfCurrentBand score =
     (if score < 50 then 50 else if score < 200 then 200
      else if score < 500 then 500 else 1000)"

subsection \<open>A small database for the concrete cases\<close>

text \<open>
  Student Asha (profile visible) with one approved document worth 30 points and one
  pending document; student Bela (profile hidden); faculty member Farid; one
  collaboration request from Asha to Bela that Bela has declined.
\<close>

definition asha :: profile where
  "asha = \<lparr>profile_id = ''pA'', user_id = ''uA'', full_name = ''Asha'',
            email = ''asha@x.edu'', user_type = Student, department = Some ''CSE'',
            college = Some ''North'', year_of_study = Some 2, bio = None,
            profile_visible = Some True, skills_visible = Some True\<rparr>"

definition bela :: profile where
  "bela = \<lparr>profile_id = ''pB'', user_id = ''uB'', full_name = ''Bela'',
            email = ''bela@x.edu'', user_type = Student, department = Some ''CSE'',
            college = Some ''North'', year_of_study = Some 3, bio = None,
            profile_visible = Some False, skills_visible = Some True\<rparr>"

definition farid :: profile where
  "farid = \<lparr>profile_id = ''pF'', user_id = ''uF'', full_name = ''Farid'',
             email = ''farid@x.edu'', user_type = Faculty, department = Some ''CSE'',
             college = Some ''North'', year_of_study = None, bio = None,
             profile_visible = Some True, skills_visible = Some True\<rparr>"

definition approved_doc :: document where
  "approved_doc = \<lparr>doc_id = ''d1'', student_id = ''pA'', title = ''Hackathon'',
     description = None, file_url = ''https://files/uA/1.pdf'',
     file_type = ''application/pdf'', file_size = Some 1000, status = Approved,
     uploaded_at = ''2025-09-01'', approved_by = Some ''pF'',
     approved_at = Some ''2025-09-02'', rejection_reason = None,
     points_awarded = Some 30\<rparr>"

definition pending_doc :: document where
  "pending_doc = \<lparr>doc_id = ''d2'', student_id = ''pA'', title = ''Course'',
     description = None, file_url = ''https://files/uA/2.pdf'',
     file_type = ''application/pdf'', file_size = Some 2000, status = Pending,
     uploaded_at = ''2025-09-03'', approved_by = None, approved_at = None,
     rejection_reason = None, points_awarded = Some 0\<rparr>"

definition declined_request :: collaboration_request where
  "declined_request = \<lparr>request_id = ''r1'', requester_id = ''pA'', requested_id = ''pB'',
     project_title = ''Robot'', project_description = None, skills_needed = [''Python''],
     request_status = Declined, created_at = ''2025-09-04'', updated_at = ''2025-09-05''\<rparr>"

definition hub :: database where
  "hub = \<lparr>profiles = [asha, bela, farid], skills_table = [], student_skills = [],
           documents = [approved_doc, pending_doc],
           collaboration_requests = [declined_request], storage_objects = []\<rparr>"

text \<open>
  An upload of \<open>cert.pdf\<close> by Asha at a moment when the metadata insert is refused and
  the storage service does not delete what it is asked to remove.
\<close>

definition certificate :: upload_file where
  "certificate = \<lparr>file_name = ''cert.pdf'', mime_type = ''application/pdf'', byte_size = 10\<rparr>"

definition insert_refused :: services where
  "insert_refused = \<lparr>upload_error = None, insert_error = Some (Error ''duplicate key''),
     remove_succeeds = False, new_document_id = ''d3'',
     storage_base_url = ''https://files/''\<rparr>"

text \<open>Two approved documents of Asha that carry the largest number of points the column holds.\<close>

definition top_marks :: "document list" where
  "top_marks = [approved_doc\<lparr>points_awarded := Some 2147483647\<rparr>,
                approved_doc\<lparr>doc_id := ''d9'', points_awarded := Some 2147483647\<rparr>]"

text \<open>
  The campus with a third student, Chen, who has one approved document worth 50 points.
\<close>

definition chen :: profile where
  "chen = asha\<lparr>profile_id := ''pC'', user_id := ''uC'', full_name := ''Chen'',
                email := ''chen@x.edu''\<rparr>"

definition chen_doc :: document where
  "chen_doc = approved_doc\<lparr>doc_id := ''d5'', student_id := ''pC'',
                 points_awarded := Some 50\<rparr>"

definition hub_with_chen :: database where
  "hub_with_chen = hub\<lparr>profiles := [asha, bela, chen, farid],
                        documents := [approved_doc, pending_doc, chen_doc]\<rparr>"

text \<open>
  Two students of the same name and no documents, in the two orders in which the store
  may return them.
\<close>

definition sam_one :: profile where
  "sam_one = asha\<lparr>profile_id := ''pS1'', user_id := ''uS1'', full_name := ''Sam'',
                   email := ''sam1@x.edu''\<rparr>"

definition sam_two :: profile where
  "sam_two = asha\<lparr>profile_id := ''pS2'', user_id := ''uS2'', full_name := ''Sam'',
                   email := ''sam2@x.edu''\<rparr>"

definition sams :: database where
  "sams = hub\<lparr>profiles := [sam_one, sam_two, farid], documents := []\<rparr>"

definition sams_reversed :: database where
  "sams_reversed = hub\<lparr>profiles := [sam_two, sam_one, farid], documents := []\<rparr>"

text \<open>
  The same campus with Bela's profile visible, Asha's name entered in lower case, and no
  documents: two students with equal scores.
\<close>

definition campus :: database where
  "campus = hub\<lparr>profiles := [bela\<lparr>profile_visible := Some True\<rparr>,
                               asha\<lparr>full_name := ''asha''\<rparr>, farid],
                  documents := []\<rparr>"

section \<open>Properties\<close>

subsection \<open>Three-valued connectives\<close>

lemma sql_and_eq_True: "(sql_and a b = Some True) = (a = Some True \<and> b = Some True)"
  by (cases "(a, b)" rule: sql_and.cases) simp_all

lemma sql_or_eq_True: "(sql_or a b = Some True) = (a = Some True \<or> b = Some True)"
  by (cases "(a, b)" rule: sql_or.cases) simp_all

subsection \<open>Score aggregation\<close>

lemma sql_true_achievement_where:
  "sql_true (achievement_where s d) = counts_towards_score s d"
  by (cases "points_awarded d")
     (auto simp: achievement_where_def counts_towards_score_def sql_true_def
                 sql_eq_def sql_gt_def sql_and_eq_True)

lemma coalesce_sql_sum:
  "coalesce (sql_sum vs) 0 = sum_list (map (\<lambda>v. case v of None \<Rightarrow> 0 | Some n \<Rightarrow> n) vs)"
proof (induction vs rule: sql_sum.induct)
  case 1
  show ?case by (simp add: coalesce_def)
next
  case (2 vs)
  then show ?case by simp
next
  case (3 v vs)
  then show ?case by (cases "sql_sum vs") (simp_all add: coalesce_def)
qed

subsection \<open>Levels\<close>

text \<open>
  C6. For a non-negative total score the level follows bands that exclude their upper
  bound: Newcomer on [0,50), Beginner on [50,200), Intermediate on [200,500), Advanced
  on [500,1000) and Expert from 1000 on.
\<close>

theorem getPointsLevel_bands:
  assumes "0 \<le> points"
  shows "(level (getPointsLevel points) = ''Newcomer'' \<longleftrightarrow> points < 50) \<and>
         (level (getPointsLevel points) = ''Beginner'' \<longleftrightarrow> 50 \<le> points \<and> points < 200) \<and>
         (level (getPointsLevel points) = ''Intermediate'' \<longleftrightarrow> 200 \<le> points \<and> points < 500) \<and>
         (level (getPointsLevel points) = ''Advanced'' \<longleftrightarrow> 500 \<le> points \<and> points < 1000) \<and>
         (level (getPointsLevel points) = ''Expert'' \<longleftrightarrow> 1000 \<le> points)"
  by (simp add: getPointsLevel_def)

theorem getPointsLevel_bands_witness:
  "(0::int) \<le> 55 \<and> level (getPointsLevel 55) = ''Beginner'' \<and>
   level (getPointsLevel 55) \<noteq> ''Newcomer''"
  using getPointsLevel_bands [of 55] by simp

subsection \<open>Rounding to a double\<close>

lemma round_half_even_error: "\<bar>of_int (round_half_even q) - q\<bar> \<le> 1 / 2"
proof -
  have "of_int \<lfloor>q\<rfloor> \<le> q" and "q < of_int \<lfloor>q\<rfloor> + 1" by linarith+
  then show ?thesis
    by (auto simp: round_half_even_def Let_def abs_le_iff)
qed

lemma int_power_bounds:
  assumes "0 < (n::int)"
  shows "(2::rat) powi (bitlen n - 1) \<le> of_int n" and "of_int n < (2::rat) powi (bitlen n)"
proof -
  from assms have l: "1 \<le> bitlen n" by (simp add: bitlen_alt_def)
  from bitlen_bounds [OF assms] have lo: "2 ^ nat (bitlen n - 1) \<le> n"
    and hi: "n < 2 ^ nat (bitlen n)" by simp_all
  have "(2::rat) ^ nat (bitlen n - 1) = of_int (2 ^ nat (bitlen n - 1))" by simp
  also have "\<dots> \<le> of_int n" using lo by (simp only: of_int_le_iff)
  finally show "(2::rat) powi (bitlen n - 1) \<le> of_int n"
    using l by (simp add: power_int_def)
  have "of_int n < (of_int (2 ^ nat (bitlen n)) :: rat)" using hi by (simp only: of_int_less_iff)
  also have "\<dots> = 2 ^ nat (bitlen n)" by simp
  finally show "of_int n < (2::rat) powi (bitlen n)"
    using l by (simp add: power_int_def)
qed

text \<open>The binade of a number is the power of two at or below it.\<close>

lemma binade_bounds:
  assumes "x \<noteq> 0"
  shows "2 powi (binade x) \<le> \<bar>x\<bar> \<and> \<bar>x\<bar> < 2 powi (binade x + 1)"
proof -
  obtain a b where q: "quotient_of \<bar>x\<bar> = (a, b)" by (cases "quotient_of \<bar>x\<bar>")
  from quotient_of_denom_pos [OF q] have b: "0 < b" .
  from quotient_of_div [OF q] have x: "\<bar>x\<bar> = of_int a / of_int b" .
  from assms have "0 < \<bar>x\<bar>" by simp
  with x b have a: "0 < a" by (simp add: zero_less_divide_iff)
  let ?k = "bitlen a - bitlen b"
  have a_lo: "(2::rat) powi (bitlen a - 1) \<le> of_int a"
    and a_hi: "of_int a < (2::rat) powi (bitlen a)"
    using int_power_bounds [OF a] .
  have b_lo: "(2::rat) powi (bitlen b - 1) \<le> of_int b"
    and b_hi: "of_int b \<le> (2::rat) powi (bitlen b)"
    using int_power_bounds [OF b] by simp_all
  have lower: "(2::rat) powi (?k - 1) \<le> \<bar>x\<bar>"
  proof -
    have "(2::rat) powi (?k - 1) = 2 powi (bitlen a - 1 - bitlen b)"
      by (rule arg_cong [where f = "power_int 2"]) simp
    also have "\<dots> = 2 powi (bitlen a - 1) / 2 powi (bitlen b)"
      by (subst power_int_diff) simp_all
    also have "\<dots> \<le> of_int a / 2 powi (bitlen b)"
      using a_lo by (simp add: divide_right_mono)
    also have "\<dots> \<le> of_int a / of_int b"
      using b_hi a b by (simp add: frac_le)
    finally show ?thesis by (simp add: x)
  qed
  have upper: "\<bar>x\<bar> < (2::rat) powi (?k + 1)"
  proof -
    have "of_int a / of_int b < (2::rat) powi (bitlen a) / of_int b"
      using a_hi b by (simp add: divide_strict_right_mono)
    also have "\<dots> \<le> 2 powi (bitlen a) / 2 powi (bitlen b - 1)"
      using b_lo by (simp add: frac_le)
    also have "\<dots> = 2 powi (bitlen a - (bitlen b - 1))"
      by (subst power_int_diff) simp_all
    also have "\<dots> = 2 powi (?k + 1)"
      by (rule arg_cong [where f = "power_int 2"]) simp
    finally show ?thesis by (simp add: x)
  qed
  show ?thesis
  proof (cases "2 powi ?k \<le> \<bar>x\<bar>")
    case True
    then have "binade x = ?k" by (simp add: binade_def q)
    with True upper show ?thesis by simp
  next
    case False
    then have "binade x = ?k - 1" by (simp add: binade_def q)
    with False lower show ?thesis by simp
  qed
qed

lemma to_double_error: "\<bar>to_double x - x\<bar> \<le> \<bar>x\<bar> / 2 ^ 53"
proof (cases "x = 0")
  case True
  then show ?thesis by (simp add: to_double_def)
next
  case False
  let ?u = "(2::rat) powi (binade x - 52)"
  have u: "0 < ?u" by simp
  have "to_double x - x = (of_int (round_half_even (x / ?u)) - x / ?u) * ?u"
    using False by (simp add: to_double_def field_simps)
  then have "\<bar>to_double x - x\<bar> = \<bar>of_int (round_half_even (x / ?u)) - x / ?u\<bar> * ?u"
    by (simp add: abs_mult)
  also have "\<dots> \<le> 1 / 2 * ?u"
    using round_half_even_error [of "x / ?u"] u by (simp add: mult_right_mono)
  also have "?u = 2 powi (binade x) / 2 ^ 52"
    by (simp add: power_int_diff)
  also have "1 / 2 * ((2::rat) powi (binade x) / 2 ^ 52) = 2 powi (binade x) / 2 ^ 53"
    by simp
  also have "\<dots> \<le> \<bar>x\<bar> / 2 ^ 53"
    using binade_bounds [OF False] by (simp add: divide_right_mono)
  finally show ?thesis .
qed

lemma small_part: "0 \<le> (z::rat) \<Longrightarrow> z / 2 ^ 53 \<le> z"
  by (simp add: field_simps)

lemma two_steps: "\<bar>t - x * 100\<bar> \<le> \<bar>t - y * 100\<bar> + 100 * \<bar>y - x\<bar>" for t x y :: rat
proof -
  have "t - x * 100 = (t - y * 100) + 100 * (y - x)" by (simp add: algebra_simps)
  then have "\<bar>t - x * 100\<bar> \<le> \<bar>t - y * 100\<bar> + \<bar>100 * (y - x)\<bar>"
    by (simp only: abs_triangle_ineq)
  also have "\<bar>100 * (y - x)\<bar> = 100 * \<bar>y - x\<bar>"
    by (simp only: abs_mult abs_numeral)
  finally show ?thesis .
qed

lemma three_parts:
  "0 \<le> (z::rat) \<Longrightarrow> 200 * z / 2 ^ 53 + 100 * (z / 2 ^ 53) \<le> z * 100 / 2 ^ 51"
  by (simp add: field_simps)

lemma quotient_times_100_error:
  "\<bar>js_times (js_divide a b) 100 - a / b * 100\<bar> \<le> \<bar>a / b * 100\<bar> / 2 ^ 51"
proof -
  let ?x = "a / b" and ?y = "to_double (a / b)"
  have e1: "\<bar>?y - ?x\<bar> \<le> \<bar>?x\<bar> / 2 ^ 53" by (rule to_double_error)
  have e2: "\<bar>to_double (?y * 100) - ?y * 100\<bar> \<le> \<bar>?y * 100\<bar> / 2 ^ 53"
    by (rule to_double_error)
  have "\<bar>?x\<bar> / 2 ^ 53 \<le> \<bar>?x\<bar>" by (rule small_part) simp
  with e1 have y: "\<bar>?y\<bar> \<le> 2 * \<bar>?x\<bar>" by linarith
  have "\<bar>?y * 100\<bar> = 100 * \<bar>?y\<bar>" by (simp add: abs_mult)
  with y e2 have e3: "\<bar>to_double (?y * 100) - ?y * 100\<bar> \<le> 200 * \<bar>?x\<bar> / 2 ^ 53"
    by (simp add: field_simps)
  have "\<bar>to_double (?y * 100) - ?x * 100\<bar>
          \<le> \<bar>to_double (?y * 100) - ?y * 100\<bar> + 100 * \<bar>?y - ?x\<bar>"
    by (rule two_steps)
  also have "\<dots> \<le> 200 * \<bar>?x\<bar> / 2 ^ 53 + 100 * (\<bar>?x\<bar> / 2 ^ 53)"
  proof (rule add_mono [OF e3])
    from e1 show "100 * \<bar>?y - ?x\<bar> \<le> 100 * (\<bar>?x\<bar> / 2 ^ 53)"
      by (rule mult_left_mono) simp
  qed
  also have "\<dots> \<le> \<bar>?x\<bar> * 100 / 2 ^ 51"
    by (rule three_parts) simp
  also have "\<bar>?x\<bar> * 100 = \<bar>?x * 100\<bar>"
    by (simp only: abs_mult abs_numeral)
  finally show ?thesis by (simp add: js_times_def js_divide_def)
qed

text \<open>
  C7, as the code has it. For a score from 0 up to 999 the progress is the double that
  \<open>(score / bound) * 100\<close> evaluates to, \<open>bound\<close> being the upper bound of the band
  that holds the score; it differs from the exact quotient by at most one part in
  \<open>2^51\<close>. From 1000 on it is exactly 100.
\<close>

theorem getPointsLevel_progress:
  assumes "0 \<le> points"
  shows "(points < 1000 \<longrightarrow>
            progress (getPointsLevel points)
              = js_times (js_divide (of_int points) (upperBoundOfCurrentBand points)) 100 \<and>
            \<bar>progress (getPointsLevel points)
               - of_int points / upperBoundOfCurrentBand points * 100\<bar>
              \<le> (of_int points / upperBoundOfCurrentBand points * 100) / 2 ^ 51) \<and>
         (1000 \<le> points \<longrightarrow> progress (getPointsLevel points) = 100)"
proof -
  have eq: "points < 1000 \<Longrightarrow> progress (getPointsLevel points)
              = js_times (js_divide (of_int points) (upperBoundOfCurrentBand points)) 100"
    by (simp add: getPointsLevel_def upperBoundOfCurrentBand_def)
  have "0 < upperBoundOfCurrentBand points" by (simp add: upperBoundOfCurrentBand_def)
  with assms have "0 \<le> of_int points / upperBoundOfCurrentBand points * 100" by simp
  then have "\<bar>of_int points / upperBoundOfCurrentBand points * 100\<bar>
               = of_int points / upperBoundOfCurrentBand points * 100"
    by (rule abs_of_nonneg)
  with quotient_times_100_error [of "of_int points" "upperBoundOfCurrentBand points"]
  have "\<bar>js_times (js_divide (of_int points) (upperBoundOfCurrentBand points)) 100
          - of_int points / upperBoundOfCurrentBand points * 100\<bar>
        \<le> (of_int points / upperBoundOfCurrentBand points * 100) / 2 ^ 51" by simp
  with eq show ?thesis by (simp add: getPointsLevel_def)
qed

text \<open>
  C7 as stated fails: at 55 points the progress is \<open>27.500000000000004\<close>, not the exact
  quotient \<open>27.5\<close>.
\<close>

lemma progress_55: "js_times (js_divide 55 200) 100 = 7740561859543041 / 281474976710656"
  by code_simp

theorem getPointsLevel_progress_counterexample:
  "progress (getPointsLevel 55) = 7740561859543041 / 281474976710656 \<and>
   (55::rat) / upperBoundOfCurrentBand 55 * 100 = 55 / 2 \<and>
   progress (getPointsLevel 55) \<noteq> 55 / upperBoundOfCurrentBand 55 * 100"
  by (simp add: getPointsLevel_def upperBoundOfCurrentBand_def progress_55)

lemma progress_750: "js_times (js_divide 750 1000) 100 = 75"
  by code_simp

theorem getPointsLevel_progress_witness:
  "(0::int) \<le> 750 \<and> (750::int) < 1000 \<and> upperBoundOfCurrentBand 750 = 1000 \<and>
   progress (getPointsLevel 750) = 75 \<and>
   (0::int) \<le> 1500 \<and> (1000::int) \<le> 1500 \<and> progress (getPointsLevel 1500) = 100"
  using getPointsLevel_progress [of 750] getPointsLevel_progress [of 1500]
  by (simp add: upperBoundOfCurrentBand_def progress_750)

subsection \<open>Reading profiles\<close>

lemma sql_eq_Some_True: "(sql_eq (Some x) a = Some True) = (a = Some x)"
  by (cases a) (auto simp: sql_eq_def)

lemma sql_eq_Some_True': "(sql_eq a (Some x) = Some True) = (a = Some x)"
  by (cases a) (auto simp: sql_eq_def)

lemma can_select_profile_iff:
  "can_select_profile (Some v) p = (v = user_id p \<or> profile_visible p = Some True)"
  by (cases "profile_visible p")
     (auto simp: can_select_profile_def view_own_profile_def view_public_profile_def
        sql_true_def sql_or_eq_True sql_and_eq_True sql_eq_def sql_neq_def is_not_null_def
        json_text_def)

lemma anonymous_reads_no_profile: "\<not> can_select_profile None p"
  by (auto simp: can_select_profile_def view_own_profile_def view_public_profile_def
        sql_true_def sql_or_eq_True sql_and_eq_True sql_eq_def sql_neq_def is_not_null_def)

text \<open>
  C4. The owner of a profile can always read it, whatever the flag; any other signed-in
  viewer can read it if and only if \<open>profile_visible\<close> is true.
\<close>

theorem profile_read_policy:
  "can_select_profile (Some (user_id p)) p \<and>
   (viewer \<noteq> user_id p \<longrightarrow>
      (can_select_profile (Some viewer) p \<longleftrightarrow> profile_visible p = Some True))"
  by (simp add: can_select_profile_iff)

theorem profile_read_policy_witness:
  "can_select_profile (Some ''uB'') bela \<and> ''uA'' \<noteq> user_id bela \<and>
   \<not> can_select_profile (Some ''uA'') bela \<and>
   ''uB'' \<noteq> user_id asha \<and> can_select_profile (Some ''uB'') asha"
  using profile_read_policy [of bela "''uA''"] profile_read_policy [of asha "''uB''"]
  by (simp add: bela_def asha_def)

subsection \<open>Document review\<close>

lemma fetchFacultyProfile_SomeD:
  assumes "fetchFacultyProfile db auth_uid = Some f"
  shows "f \<in> set (profiles db) \<and> auth_uid = Some (user_id f)"
proof -
  let ?P = "\<lambda>p. can_select_profile auth_uid p \<and> sql_true (sql_eq (Some (user_id p)) auth_uid)"
  from assms have "filter ?P (profiles db) = [f]"
    by (auto simp: fetchFacultyProfile_def split: list.splits)
  then have "f \<in> set (filter ?P (profiles db))" by simp
  then show ?thesis by (auto simp: sql_true_def sql_eq_Some_True)
qed

lemma faculty_can_update_document:
  assumes "f \<in> set ps" and "user_type f = Faculty"
  shows "can_update_document ps (Some (user_id f)) d"
  using assms
  by (auto simp: can_update_document_def can_select_document_def is_faculty_def
        list_ex_iff sql_true_def sql_and_eq_True sql_eq_def is_not_null_def)

lemma handleApproval_faculty:
  assumes "fetchFacultyProfile db auth_uid = Some f" and "user_type f = Faculty"
  shows "handleApproval db auth_uid now documentId approved reason points =
           (if points_refused approved points \<and> documentId \<in> doc_id ` set (documents db)
            then Inl (Error ''integer out of range'')
            else Inr (db\<lparr>documents :=
                   map (\<lambda>d. if doc_id d = documentId
                             then approval_update (profile_id f) now approved reason points d
                             else d)
                       (documents db)\<rparr>))"
proof -
  from fetchFacultyProfile_SomeD [OF assms(1)]
  have mem: "f \<in> set (profiles db)" and uid: "auth_uid = Some (user_id f)" by simp_all
  have "\<And>d. can_update_document (profiles db) auth_uid d"
    unfolding uid by (rule faculty_can_update_document [OF mem assms(2)])
  then show ?thesis
    by (auto simp: handleApproval_def assms(1) Let_def list_ex_iff)
qed

lemma fetch_farid: "fetchFacultyProfile hub (Some ''uF'') = Some farid"
  by (simp add: fetchFacultyProfile_def hub_def asha_def bela_def farid_def
        can_select_profile_iff sql_true_def sql_eq_def)


lemma documents_hub: "documents hub = [approved_doc, pending_doc]"
  by (simp add: hub_def)

lemma hub_review:
  assumes "\<not> points_refused approved points"
  shows "handleApproval hub (Some ''uF'') now documentId approved reason points =
     Inr (hub\<lparr>documents :=
            map (\<lambda>d. if doc_id d = documentId
                      then approval_update ''pF'' now approved reason points d
                      else d)
                [approved_doc, pending_doc]\<rparr>)"
proof -
  have "user_type farid = Faculty" and "profile_id farid = ''pF''"
    by (simp_all add: farid_def)
  with handleApproval_faculty [OF fetch_farid] assms show ?thesis
    by (simp add: documents_hub)
qed

text \<open>
  C2, as the code has it. \<open>handleApproval\<close> writes without looking at the current
  status: for a caller whose loaded profile is a faculty profile it succeeds on every
  document, whatever its status, and leaves each row with the given id approved or
  rejected as asked, unless it approves with a number of points that the integer
  column cannot hold; then the update of an existing document is refused and nothing
  changes. It has no \<open>InvalidTransition\<close> outcome.
\<close>

theorem handleApproval_unconditional_write:
  assumes "fetchFacultyProfile db auth_uid = Some f" and "user_type f = Faculty"
  shows "(\<not> points_refused approved points \<longrightarrow>
            handleApproval db auth_uid now documentId approved reason points =
              Inr (db\<lparr>documents :=
                     map (\<lambda>d. if doc_id d = documentId
                               then approval_update (profile_id f) now approved reason points d
                               else d)
                         (documents db)\<rparr>)) \<and>
         (points_refused approved points \<and> documentId \<in> doc_id ` set (documents db) \<longrightarrow>
            handleApproval db auth_uid now documentId approved reason points =
              Inl (Error ''integer out of range'')) \<and>
         status (approval_update (profile_id f) now approved reason points d)
           = (if approved then Approved else Rejected)"
  using handleApproval_faculty [OF assms]
  by (simp add: approval_update_def Let_def)

text \<open>
  C2 as stated fails: a review of the already approved document \<open>d1\<close> succeeds, turns
  it into a rejected one, and takes Asha's score from 30 to 0.
\<close>

theorem handleApproval_second_review_counterexample:
  "\<not> isl (handleApproval hub (Some ''uF'') ''2025-09-09'' ''d1'' False (Some ''blurred'') None) \<and>
   map status (documents (projr
     (handleApproval hub (Some ''uF'') ''2025-09-09'' ''d1'' False (Some ''blurred'') None)))
     = [Rejected, Pending] \<and>
   get_student_achievement_points (documents hub) ''pA'' = Inr 30 \<and>
   get_student_achievement_points (documents (projr
     (handleApproval hub (Some ''uF'') ''2025-09-09'' ''d1'' False (Some ''blurred'') None))) ''pA''
     = Inr 0"
proof -
  have ok: "\<not> points_refused False None" by (simp add: points_refused_def)
  show ?thesis
    unfolding hub_review [OF ok]
    by (simp add: documents_hub approved_doc_def pending_doc_def approval_update_def
          truthy_string_def get_student_achievement_points_def achievement_where_def
          sql_true_def sql_eq_def sql_gt_def coalesce_def int4_def int8_def)
qed

theorem handleApproval_unconditional_write_witness:
  "fetchFacultyProfile hub (Some ''uF'') = Some farid \<and> user_type farid = Faculty \<and>
   \<not> points_refused True (Some 50) \<and>
   map status (documents (projr
     (handleApproval hub (Some ''uF'') ''2025-09-09'' ''d1'' True None (Some 50))))
     = [Approved, Pending] \<and>
   map points_awarded (documents (projr
     (handleApproval hub (Some ''uF'') ''2025-09-09'' ''d1'' True None (Some 50))))
     = [Some 50, Some 0] \<and>
   points_refused True (Some 2147483648) \<and> ''d2'' \<in> doc_id ` set (documents hub) \<and>
   handleApproval hub (Some ''uF'') ''2025-09-09'' ''d2'' True None (Some 2147483648)
     = Inl (Error ''integer out of range'')"
proof -
  have f: "fetchFacultyProfile hub (Some ''uF'') = Some farid" by (rule fetch_farid)
  have t: "user_type farid = Faculty" by (simp add: farid_def)
  have ok: "\<not> points_refused True (Some 50)"
    and no: "points_refused True (Some 2147483648)"
    by (simp_all add: points_refused_def int4_def)
  have ex: "''d2'' \<in> doc_id ` set (documents hub)"
    by (simp add: documents_hub approved_doc_def pending_doc_def)
  from handleApproval_unconditional_write [OF f t, of True "Some 50" "''2025-09-09''" "''d1''"
         None approved_doc]
       handleApproval_unconditional_write [OF f t, of True "Some 2147483648" "''2025-09-09''"
         "''d2''" None approved_doc]
  show ?thesis
    by (simp add: f t ok no ex) (simp add: documents_hub approved_doc_def pending_doc_def
          approval_update_def truthy_string_def truthy_number_def)
qed

text \<open>
  C9, as the code has it. \<open>handleApproval\<close> checks no range of its own: on approval any
  non-zero number of points that the integer column can hold is stored as given, and
  when the points are absent or zero the stored \<open>points_awarded\<close> is left as it was. A
  number outside the column's range makes the update of an existing document fail with
  the database's error.
\<close>

theorem handleApproval_points_unchecked:
  assumes "fetchFacultyProfile db auth_uid = Some f" and "user_type f = Faculty"
  shows "(\<not> points_refused True points \<longrightarrow>
            (\<exists>db'. handleApproval db auth_uid now documentId True reason points = Inr db' \<and>
               map points_awarded (documents db')
                 = map (\<lambda>d. if doc_id d = documentId \<and> truthy_number points
                             then points else points_awarded d) (documents db))) \<and>
         (points_refused True points \<and> documentId \<in> doc_id ` set (documents db) \<longrightarrow>
            handleApproval db auth_uid now documentId True reason points
              = Inl (Error ''integer out of range''))"
  using handleApproval_faculty [OF assms]
  by (auto simp: approval_update_def Let_def comp_def)

text \<open>
  C9 as stated fails: approving with 150 points succeeds and stores 150; approving
  \<open>d1\<close> again without points leaves its 30 points in place instead of setting 0.
\<close>

theorem handleApproval_out_of_range_counterexample:
  "\<not> isl (handleApproval hub (Some ''uF'') ''2025-09-09'' ''d2'' True None (Some 150)) \<and>
   map points_awarded (documents (projr
     (handleApproval hub (Some ''uF'') ''2025-09-09'' ''d2'' True None (Some 150))))
     = [Some 30, Some 150] \<and>
   \<not> isl (handleApproval hub (Some ''uF'') ''2025-09-09'' ''d1'' True None None) \<and>
   map points_awarded (documents (projr
     (handleApproval hub (Some ''uF'') ''2025-09-09'' ''d1'' True None None)))
     = [Some 30, Some 0]"
proof -
  have a: "\<not> points_refused True (Some 150)" and b: "\<not> points_refused True None"
    by (simp_all add: points_refused_def int4_def)
  show ?thesis
    unfolding hub_review [OF a] hub_review [OF b]
    by (simp add: approved_doc_def pending_doc_def approval_update_def truthy_string_def
          truthy_number_def)
qed

theorem handleApproval_points_unchecked_witness:
  "fetchFacultyProfile hub (Some ''uF'') = Some farid \<and> user_type farid = Faculty \<and>
   \<not> points_refused True (Some (- 5)) \<and>
   (\<exists>db'. handleApproval hub (Some ''uF'') ''2025-09-09'' ''d2'' True None (Some (- 5)) = Inr db' \<and>
      map points_awarded (documents db') = [Some 30, Some (- 5)]) \<and>
   points_refused True (Some 2147483648) \<and> ''d2'' \<in> doc_id ` set (documents hub) \<and>
   isl (handleApproval hub (Some ''uF'') ''2025-09-09'' ''d2'' True None (Some 2147483648))"
proof -
  have f: "fetchFacultyProfile hub (Some ''uF'') = Some farid" by (rule fetch_farid)
  have t: "user_type farid = Faculty" by (simp add: farid_def)
  have ok: "\<not> points_refused True (Some (- 5))"
    and no: "points_refused True (Some 2147483648)"
    by (simp_all add: points_refused_def int4_def)
  have ex: "''d2'' \<in> doc_id ` set (documents hub)"
    by (simp add: documents_hub approved_doc_def pending_doc_def)
  from handleApproval_points_unchecked [OF f t, of "Some (- 5)" "''2025-09-09''" "''d2''" None]
       handleApproval_points_unchecked [OF f t, of "Some 2147483648" "''2025-09-09''"
         "''d2''" None]
  show ?thesis
    by (simp add: f t ok no ex) (simp add: documents_hub approved_doc_def pending_doc_def
          truthy_number_def)
qed

subsection \<open>Collaboration requests\<close>

lemma owner_can_select_request:
  assumes "owns_profile ps auth_uid (requested_id r)"
  shows "can_select_request ps auth_uid r"
  using assms
  by (auto simp: owns_profile_def can_select_request_def list_ex_iff sql_true_def
        sql_and_eq_True sql_eq_Some_True sql_eq_Some_True')

lemma can_update_request_iff:
  "can_update_request ps auth_uid r = owns_profile ps auth_uid (requested_id r)"
  using owner_can_select_request by (auto simp: can_update_request_def)

text \<open>
  C8, as the code has it. \<open>updateRequestStatus\<close> changes a request only for a caller
  who owns the requested profile: a call by anybody else, the requester included,
  changes nothing and still returns without error. For the requested party it stores
  the new status whatever the current one is.
\<close>

theorem updateRequestStatus_policy:
  "(\<not> list_ex (\<lambda>r. request_id r = requestId \<and>
                     owns_profile (profiles db) auth_uid (requested_id r))
        (collaboration_requests db)
      \<longrightarrow> updateRequestStatus db auth_uid now requestId new_status = Inr db) \<and>
   (list_ex (\<lambda>r. request_id r = requestId \<and>
                  owns_profile (profiles db) auth_uid (requested_id r))
        (collaboration_requests db) \<and>
    parse_request_status new_status = Some st
      \<longrightarrow> updateRequestStatus db auth_uid now requestId new_status =
            Inr (db\<lparr>collaboration_requests :=
                   map (\<lambda>r. if request_id r = requestId \<and>
                                owns_profile (profiles db) auth_uid (requested_id r)
                             then r\<lparr>request_status := st, updated_at := now\<rparr>
                             else r)
                       (collaboration_requests db)\<rparr>))"
  by (simp add: updateRequestStatus_def can_update_request_iff Let_def)

lemma requests_hub: "collaboration_requests hub = [declined_request]"
  by (simp add: hub_def)

lemma profiles_hub: "profiles hub = [asha, bela, farid]"
  by (simp add: hub_def)

lemma bela_owns_requested:
  "owns_profile (profiles hub) (Some ''uB'') (requested_id declined_request)"
  by (simp add: profiles_hub owns_profile_def declined_request_def asha_def bela_def
        farid_def sql_true_def sql_eq_def)

lemma asha_owns_not_requested:
  "\<not> owns_profile (profiles hub) (Some ''uA'') (requested_id declined_request)"
  by (simp add: profiles_hub owns_profile_def declined_request_def asha_def bela_def
        farid_def sql_true_def sql_eq_def)

text \<open>
  C8 as stated fails: the requester's call returns without error (and without effect),
  and the requested party turns a declined request into an accepted one.
\<close>

theorem updateRequestStatus_terminal_counterexample:
  "updateRequestStatus hub (Some ''uA'') ''2025-09-09'' ''r1'' ''accepted'' = Inr hub \<and>
   request_status declined_request = Declined \<and>
   \<not> isl (updateRequestStatus hub (Some ''uB'') ''2025-09-09'' ''r1'' ''accepted'') \<and>
   map request_status (collaboration_requests (projr
     (updateRequestStatus hub (Some ''uB'') ''2025-09-09'' ''r1'' ''accepted''))) = [Accepted]"
  by (simp add: updateRequestStatus_def can_update_request_iff requests_hub
        bela_owns_requested asha_owns_not_requested parse_request_status_def)
     (simp add: declined_request_def)

theorem updateRequestStatus_policy_witness:
  "\<not> list_ex (\<lambda>r. request_id r = ''r1'' \<and>
                    owns_profile (profiles hub) (Some ''uF'') (requested_id r))
       (collaboration_requests hub) \<and>
   updateRequestStatus hub (Some ''uF'') ''2025-09-09'' ''r1'' ''declined'' = Inr hub \<and>
   list_ex (\<lambda>r. request_id r = ''r1'' \<and>
                 owns_profile (profiles hub) (Some ''uB'') (requested_id r))
       (collaboration_requests hub) \<and>
   parse_request_status ''pending'' = Some Request_Pending \<and>
   map request_status (collaboration_requests (projr
     (updateRequestStatus hub (Some ''uB'') ''2025-09-09'' ''r1'' ''pending'')))
     = [Request_Pending]"
proof -
  have no: "\<not> owns_profile (profiles hub) (Some ''uF'') (requested_id declined_request)"
    by (simp add: profiles_hub owns_profile_def declined_request_def asha_def bela_def
          farid_def sql_true_def sql_eq_def)
  have p: "parse_request_status ''pending'' = Some Request_Pending"
    by (simp add: parse_request_status_def)
  have id: "request_id declined_request = ''r1''" by (simp add: declined_request_def)
  from updateRequestStatus_policy [of "''r1''" hub "Some ''uF''" "''2025-09-09''" "''declined''"]
       updateRequestStatus_policy [of "''r1''" hub "Some ''uB''" "''2025-09-09''" "''pending''"
         Request_Pending]
  show ?thesis
    by (simp add: requests_hub no p id bela_owns_requested)
qed


subsection \<open>Document upload\<close>

lemma storage_upload_InrD:
  assumes "storage_upload sv db auth_uid n = Inr db1"
  shows "n \<notin> set (storage_objects db) \<and> db1 = db\<lparr>storage_objects := n # storage_objects db\<rparr>"
  using assms by (auto simp: storage_upload_def split: option.splits if_splits)

lemma storage_remove_undoes_upload:
  assumes "n \<notin> set (storage_objects db)" and "remove_succeeds sv"
  shows "storage_remove sv (db\<lparr>storage_objects := n # storage_objects db\<rparr>) [n] = db"
proof -
  from assms(1) have "filter (\<lambda>m. m \<noteq> n) (storage_objects db) = storage_objects db"
    by (auto intro: filter_True)
  with assms(2) show ?thesis by (simp add: storage_remove_def)
qed

lemma storage_remove_documents: "documents (storage_remove sv db ns) = documents db"
  by (simp add: storage_remove_def)

text \<open>
  C10, as the code has it. An upload that does not end in success leaves no metadata
  row, and leaves the whole state as it was provided the storage service carries out
  the removal; the handler asks for the removal before it reports the error, but does
  not look at its result.
\<close>

theorem handleFileUpload_compensation:
  assumes "handleFileUpload sv db auth_uid profile_prop file title_in description_in now_ms now
             = (outcome, db')"
      and "outcome \<noteq> Document_Uploaded"
  shows "documents db' = documents db \<and> (remove_succeeds sv \<longrightarrow> db' = db)"
proof (cases profile_prop)
  case None
  with assms(1) show ?thesis by (simp add: handleFileUpload_def)
next
  case (Some prof)
  show ?thesis
  proof (cases "file")
    case None
    with Some assms(1) show ?thesis by (simp add: handleFileUpload_def)
  next
    case (Some f)
    let ?n = "storageFileName auth_uid now_ms (file_name f)"
    show ?thesis
    proof (cases "storage_upload sv db auth_uid ?n")
      case (Inl uploadError)
      with \<open>profile_prop = Some prof\<close> Some assms(1) show ?thesis
        by (simp add: handleFileUpload_def)
    next
      case (Inr db1)
      from storage_upload_InrD [OF Inr]
      have fresh: "?n \<notin> set (storage_objects db)"
        and db1: "db1 = db\<lparr>storage_objects := ?n # storage_objects db\<rparr>" by simp_all
      from \<open>profile_prop = Some prof\<close> Some Inr assms
      have "db' = storage_remove sv db1 [?n]"
        by (auto simp: handleFileUpload_def Let_def split: sum.splits)
      with fresh db1 show ?thesis
        by (simp add: storage_remove_undoes_upload storage_remove_documents)
    qed
  qed
qed


lemma storageFileName_certificate:
  "storageFileName (Some ''uA'') ''1757000000000'' (file_name certificate)
     = ''uA/1757000000000.pdf''"
  by (simp add: storageFileName_def fileExt_def certificate_def)

lemma storage_objects_hub: "storage_objects hub = []"
  by (simp add: hub_def)

lemma upload_with_refused_insert:
  "handleFileUpload (insert_refused\<lparr>remove_succeeds := b\<rparr>) hub (Some ''uA'') (Some asha)
     (Some certificate) ''Certificate'' None ''1757000000000'' ''2025-09-09''
   = (Upload_Failed (Error ''duplicate key''),
      storage_remove (insert_refused\<lparr>remove_succeeds := b\<rparr>)
        (hub\<lparr>storage_objects := [''uA/1757000000000.pdf'']\<rparr>) [''uA/1757000000000.pdf''])"
  by (simp add: handleFileUpload_def storageFileName_certificate storage_upload_def
        documents_insert_def insert_refused_def storage_objects_hub Let_def)

text \<open>
  C10 as stated fails: when the insert is refused and the removal does not take effect,
  the upload fails and the stored file stays behind.
\<close>

theorem handleFileUpload_orphan_counterexample:
  "fst (handleFileUpload insert_refused hub (Some ''uA'') (Some asha) (Some certificate)
          ''Certificate'' None ''1757000000000'' ''2025-09-09'')
     = Upload_Failed (Error ''duplicate key'') \<and>
   storage_objects (snd (handleFileUpload insert_refused hub (Some ''uA'') (Some asha)
          (Some certificate) ''Certificate'' None ''1757000000000'' ''2025-09-09''))
     = [''uA/1757000000000.pdf''] \<and>
   storage_objects hub = []"
proof -
  have same: "insert_refused\<lparr>remove_succeeds := False\<rparr> = insert_refused"
    and kept: "\<not> remove_succeeds insert_refused"
    by (simp_all add: insert_refused_def)
  from upload_with_refused_insert [of False] show ?thesis
    unfolding same by (simp add: storage_remove_def storage_objects_hub kept)
qed

theorem handleFileUpload_compensation_witness:
  "fst (handleFileUpload (insert_refused\<lparr>remove_succeeds := True\<rparr>) hub (Some ''uA'')
          (Some asha) (Some certificate) ''Certificate'' None ''1757000000000'' ''2025-09-09'')
     \<noteq> Document_Uploaded \<and>
   remove_succeeds (insert_refused\<lparr>remove_succeeds := True\<rparr>) \<and>
   snd (handleFileUpload (insert_refused\<lparr>remove_succeeds := True\<rparr>) hub (Some ''uA'')
          (Some asha) (Some certificate) ''Certificate'' None ''1757000000000'' ''2025-09-09'')
     = hub"
proof -
  let ?r = "handleFileUpload (insert_refused\<lparr>remove_succeeds := True\<rparr>) hub (Some ''uA'')
          (Some asha) (Some certificate) ''Certificate'' None ''1757000000000'' ''2025-09-09''"
  have o: "fst ?r \<noteq> Document_Uploaded"
    by (simp add: upload_with_refused_insert)
  have e: "?r = (fst ?r, snd ?r)" by simp
  from handleFileUpload_compensation [OF e o] o show ?thesis by simp
qed

subsection \<open>Sorting with a comparator\<close>

lemma set_sort_insert: "set (sort_insert cmp x ys) = insert x (set ys)"
  by (induction ys) auto

lemma set_array_sort: "set (array_sort cmp xs) = set xs"
  by (induction xs) (simp_all add: array_sort_def set_sort_insert)

lemma mset_sort_insert: "mset (sort_insert cmp x ys) = add_mset x (mset ys)"
  by (induction ys) auto

lemma mset_array_sort: "mset (array_sort cmp xs) = mset xs"
  by (induction xs) (simp_all add: array_sort_def mset_sort_insert)

lemma consistent_comparatorD:
  assumes "consistent_comparator cmp"
  shows "cmp a b \<le> 0 \<or> cmp b a \<le> 0"
    and "cmp a b \<le> 0 \<Longrightarrow> cmp b c \<le> 0 \<Longrightarrow> cmp a c \<le> 0"
    and "cmp a a \<le> 0"
  using assms unfolding consistent_comparator_def by blast+

lemma sorted_sort_insert:
  assumes "consistent_comparator cmp"
      and "sorted_wrt (\<lambda>a b. cmp a b \<le> 0) ys"
  shows "sorted_wrt (\<lambda>a b. cmp a b \<le> 0) (sort_insert cmp x ys)"
  using assms(2)
proof (induction ys)
  case Nil
  show ?case by simp
next
  case (Cons y ys)
  show ?case
  proof (cases "cmp x y \<le> 0")
    case True
    with Cons.prems show ?thesis
      by (auto intro: consistent_comparatorD(2) [OF assms(1)])
  next
    case False
    with consistent_comparatorD(1) [OF assms(1), of x y] have "cmp y x \<le> 0" by simp
    with False Cons show ?thesis by (auto simp: set_sort_insert)
  qed
qed

lemma sorted_array_sort:
  assumes "consistent_comparator cmp"
  shows "sorted_wrt (\<lambda>a b. cmp a b \<le> 0) (array_sort cmp xs)"
proof (induction xs)
  case Nil
  show ?case by (simp add: array_sort_def)
next
  case (Cons x xs)
  from sorted_sort_insert [OF assms Cons] show ?case by (simp add: array_sort_def)
qed

text \<open>The sort is stable: elements that tie keep their order.\<close>

lemma filter_ties_sort_insert:
  assumes "consistent_comparator cmp"
  shows "filter (\<lambda>z. cmp a z \<le> 0 \<and> cmp z a \<le> 0) (sort_insert cmp x ys)
           = filter (\<lambda>z. cmp a z \<le> 0 \<and> cmp z a \<le> 0) (x # ys)"
proof (induction ys)
  case Nil
  show ?case by simp
next
  case (Cons y ys)
  show ?case
  proof (cases "cmp x y \<le> 0")
    case True
    then show ?thesis by simp
  next
    case False
    have "\<not> ((cmp a x \<le> 0 \<and> cmp x a \<le> 0) \<and> (cmp a y \<le> 0 \<and> cmp y a \<le> 0))"
    proof
      assume "(cmp a x \<le> 0 \<and> cmp x a \<le> 0) \<and> (cmp a y \<le> 0 \<and> cmp y a \<le> 0)"
      then have "cmp x a \<le> 0" and "cmp a y \<le> 0" by simp_all
      from consistent_comparatorD(2) [OF assms this] False show False by simp
    qed
    with False Cons show ?thesis by auto
  qed
qed

lemma filter_ties_array_sort:
  assumes "consistent_comparator cmp"
  shows "filter (\<lambda>z. cmp a z \<le> 0 \<and> cmp z a \<le> 0) (array_sort cmp xs)
           = filter (\<lambda>z. cmp a z \<le> 0 \<and> cmp z a \<le> 0) xs"
proof (induction xs)
  case Nil
  show ?case by (simp add: array_sort_def)
next
  case (Cons x xs)
  have "array_sort cmp (x # xs) = sort_insert cmp x (array_sort cmp xs)"
    by (simp add: array_sort_def)
  with filter_ties_sort_insert [OF assms, of a x "array_sort cmp xs"] Cons
  show ?case by simp
qed

text \<open>
  A sorted list is determined by its elements and by the order of those that tie.
\<close>

lemma stable_order_unique:
  assumes "consistent_comparator cmp"
      and "sorted_wrt (\<lambda>a b. cmp a b \<le> 0) xs" and "sorted_wrt (\<lambda>a b. cmp a b \<le> 0) ys"
      and "mset xs = mset ys"
      and "\<And>a. filter (\<lambda>z. cmp a z \<le> 0 \<and> cmp z a \<le> 0) xs
               = filter (\<lambda>z. cmp a z \<le> 0 \<and> cmp z a \<le> 0) ys"
  shows "xs = ys"
  using assms(2-5)
proof (induction xs arbitrary: ys)
  case Nil
  then show ?case by simp
next
  case (Cons x xs)
  from Cons.prems(3) have "ys \<noteq> []" by auto
  then obtain y ys' where ys: "ys = y # ys'" by (cases ys) auto
  have refl: "\<And>a. cmp a a \<le> 0" by (rule consistent_comparatorD(3) [OF assms(1)])
  from Cons.prems(3) have "set (x # xs) = set ys" by (metis mset_eq_setD)
  then have xin: "x \<in> set (y # ys')" and yin: "y \<in> set (x # xs)" by (auto simp: ys)
  from xin Cons.prems(2) have yx: "cmp y x \<le> 0" by (auto simp: ys refl)
  from yin Cons.prems(1) have xy: "cmp x y \<le> 0" by (auto simp: refl)
  from Cons.prems(4) [of x] xy yx have "x = y" by (simp add: ys refl)
  have tails: "\<And>a. filter (\<lambda>z. cmp a z \<le> 0 \<and> cmp z a \<le> 0) xs
                 = filter (\<lambda>z. cmp a z \<le> 0 \<and> cmp z a \<le> 0) ys'"
  proof -
    fix a
    from Cons.prems(4) [of a] show "filter (\<lambda>z. cmp a z \<le> 0 \<and> cmp z a \<le> 0) xs
                 = filter (\<lambda>z. cmp a z \<le> 0 \<and> cmp z a \<le> 0) ys'"
      by (simp add: ys \<open>x = y\<close> split: if_splits)
  qed
  from Cons.prems(1) have "sorted_wrt (\<lambda>a b. cmp a b \<le> 0) xs" by simp
  moreover from Cons.prems(2) have "sorted_wrt (\<lambda>a b. cmp a b \<le> 0) ys'" by (simp add: ys)
  moreover from Cons.prems(3) have "mset xs = mset ys'" by (simp add: ys \<open>x = y\<close>)
  ultimately have "xs = ys'" using tails by (rule Cons.IH)
  with \<open>x = y\<close> show ?case by (simp add: ys)
qed

lemma array_sort_determined:
  assumes "consistent_comparator cmp"
      and "mset xs = mset ys"
      and "\<And>a. filter (\<lambda>z. cmp a z \<le> 0 \<and> cmp z a \<le> 0) xs
               = filter (\<lambda>z. cmp a z \<le> 0 \<and> cmp z a \<le> 0) ys"
  shows "array_sort cmp xs = array_sort cmp ys"
proof (rule stable_order_unique [OF assms(1)])
  show "sorted_wrt (\<lambda>a b. cmp a b \<le> 0) (array_sort cmp xs)"
    and "sorted_wrt (\<lambda>a b. cmp a b \<le> 0) (array_sort cmp ys)"
    by (rule sorted_array_sort [OF assms(1)])+
  show "mset (array_sort cmp xs) = mset (array_sort cmp ys)"
    by (simp add: mset_array_sort assms(2))
  fix a
  show "filter (\<lambda>z. cmp a z \<le> 0 \<and> cmp z a \<le> 0) (array_sort cmp xs)
          = filter (\<lambda>z. cmp a z \<le> 0 \<and> cmp z a \<le> 0) (array_sort cmp ys)"
    by (simp add: filter_ties_array_sort [OF assms(1)] assms(3))
qed


subsection \<open>Student search\<close>

lemma compareStudents_le_0:
  "(compareStudents lc a b \<le> 0) =
     (achievement_points a > achievement_points b \<or>
      (achievement_points a = achievement_points b \<and> lc (full_name a) (full_name b) \<le> 0))"
  by (auto simp: compareStudents_def)

lemma consistent_compareStudents:
  assumes "consistent_comparator lc"
  shows "consistent_comparator (compareStudents lc)"
  unfolding consistent_comparator_def
proof (intro conjI allI impI)
  fix a b :: student
  from consistent_comparatorD(1) [OF assms, of "full_name a" "full_name b"]
  show "compareStudents lc a b \<le> 0 \<or> compareStudents lc b a \<le> 0"
    by (auto simp: compareStudents_le_0)
next
  fix a b c :: student
  assume "compareStudents lc a b \<le> 0 \<and> compareStudents lc b c \<le> 0"
  with consistent_comparatorD(2) [OF assms, of "full_name a" "full_name b" "full_name c"]
  show "compareStudents lc a c \<le> 0"
    by (auto simp: compareStudents_le_0)
qed

lemma filter_when: "(if b then filter P xs else xs) = filter (\<lambda>x. b \<longrightarrow> P x) xs"
  by simp

lemma filter_swap: "filter T (filter P xs) = filter P (filter T xs)"
  by (induction xs) simp_all

lemma filteredStudents_filters:
  "filteredStudents students t d c k =
     filter (\<lambda>st. k \<noteq> ''all'' \<longrightarrow> list_ex (\<lambda>sk. skill_name sk = k) (skills st))
       (filter (\<lambda>st. c \<noteq> ''all'' \<longrightarrow> college st = Some c)
          (filter (\<lambda>st. d \<noteq> ''all'' \<longrightarrow> department st = Some d)
             (filter (\<lambda>st. t \<noteq> [] \<longrightarrow> matches_search t st) students)))"
  unfolding filteredStudents_def Let_def by (simp only: filter_when)

lemma mset_filteredStudents:
  assumes "mset students' = mset students"
  shows "mset (filteredStudents students' t d c k) = mset (filteredStudents students t d c k)"
  using assms by (simp add: filteredStudents_filters)

lemma filter_filteredStudents:
  "filter T (filteredStudents students t d c k) = filteredStudents (filter T students) t d c k"
  unfolding filteredStudents_filters by (simp only: filter_swap [of T])

lemma filteredStudents_all: "filteredStudents students [] ''all'' ''all'' ''all'' = students"
  by (simp add: filteredStudents_def)

text \<open>
  C5, as the code has it. For any consistent \<open>localeCompare\<close>, the result of
  \<open>filterStudents\<close> is a rearrangement of the rows that pass the filters, in descending
  order of the points the search holds for each student, students with equal points in
  the order of \<open>localeCompare\<close> on their names, and students that tie on both in the
  order in which they came. So the result is the same for two orders of the same rows
  that agree on the order of the students that tie.
\<close>

theorem filterStudents_ranking:
  assumes "consistent_comparator localeCompare"
  shows "sorted_wrt (\<lambda>a b. achievement_points a > achievement_points b \<or>
                           (achievement_points a = achievement_points b \<and>
                            localeCompare (full_name a) (full_name b) \<le> 0))
           (filterStudents localeCompare students searchTerm selectedDepartment
              selectedCollege selectedSkill) \<and>
         mset (filterStudents localeCompare students searchTerm selectedDepartment
                 selectedCollege selectedSkill)
           = mset (filteredStudents students searchTerm selectedDepartment
                     selectedCollege selectedSkill) \<and>
         (\<forall>a. filter (tied localeCompare a)
                 (filterStudents localeCompare students searchTerm selectedDepartment
                    selectedCollege selectedSkill)
               = filter (tied localeCompare a)
                   (filteredStudents students searchTerm selectedDepartment
                      selectedCollege selectedSkill)) \<and>
         (mset students' = mset students \<and>
          (\<forall>a. filter (tied localeCompare a) students'
                = filter (tied localeCompare a) students)
          \<longrightarrow> filterStudents localeCompare students' searchTerm selectedDepartment
                 selectedCollege selectedSkill
               = filterStudents localeCompare students searchTerm selectedDepartment
                   selectedCollege selectedSkill)"
proof -
  let ?cmp = "compareStudents localeCompare"
  note c = consistent_compareStudents [OF assms]
  have tied: "tied localeCompare = (\<lambda>a z. ?cmp a z \<le> 0 \<and> ?cmp z a \<le> 0)"
    by (simp add: tied_def fun_eq_iff)
  have sorted: "sorted_wrt (\<lambda>a b. ?cmp a b \<le> 0)
                  (filterStudents localeCompare students searchTerm selectedDepartment
                     selectedCollege selectedSkill)"
    unfolding filterStudents_def by (rule sorted_array_sort [OF c])
  have same: "filterStudents localeCompare students' searchTerm selectedDepartment
                 selectedCollege selectedSkill
               = filterStudents localeCompare students searchTerm selectedDepartment
                   selectedCollege selectedSkill"
    if m: "mset students' = mset students"
      and f: "\<And>a. filter (tied localeCompare a) students'
                  = filter (tied localeCompare a) students"
    unfolding filterStudents_def
  proof (rule array_sort_determined [OF c])
    from m show "mset (filteredStudents students' searchTerm selectedDepartment
                         selectedCollege selectedSkill)
                   = mset (filteredStudents students searchTerm selectedDepartment
                             selectedCollege selectedSkill)"
      by (rule mset_filteredStudents)
    fix a
    from f [of a]
    have "filter (tied localeCompare a)
            (filteredStudents students' searchTerm selectedDepartment
               selectedCollege selectedSkill)
          = filter (tied localeCompare a)
              (filteredStudents students searchTerm selectedDepartment
                 selectedCollege selectedSkill)"
      by (simp only: filter_filteredStudents)
    then show "filter (\<lambda>z. ?cmp a z \<le> 0 \<and> ?cmp z a \<le> 0)
                 (filteredStudents students' searchTerm selectedDepartment
                    selectedCollege selectedSkill)
               = filter (\<lambda>z. ?cmp a z \<le> 0 \<and> ?cmp z a \<le> 0)
                   (filteredStudents students searchTerm selectedDepartment
                      selectedCollege selectedSkill)"
      by (simp add: tied)
  qed
  have stable: "filter (tied localeCompare a)
                  (filterStudents localeCompare students searchTerm selectedDepartment
                     selectedCollege selectedSkill)
                = filter (tied localeCompare a)
                    (filteredStudents students searchTerm selectedDepartment
                       selectedCollege selectedSkill)" for a
    unfolding filterStudents_def tied by (rule filter_ties_array_sort [OF c])
  have perm: "mset (filterStudents localeCompare students searchTerm selectedDepartment
                      selectedCollege selectedSkill)
                = mset (filteredStudents students searchTerm selectedDepartment
                          selectedCollege selectedSkill)"
    by (simp add: filterStudents_def mset_array_sort)
  from sorted
  have ranked: "sorted_wrt (\<lambda>a b. achievement_points a > achievement_points b \<or>
                           (achievement_points a = achievement_points b \<and>
                            localeCompare (full_name a) (full_name b) \<le> 0))
           (filterStudents localeCompare students searchTerm selectedDepartment
              selectedCollege selectedSkill)"
    by (simp only: compareStudents_le_0)
  show ?thesis
  proof (intro conjI allI impI)
    show "filterStudents localeCompare students' searchTerm selectedDepartment
            selectedCollege selectedSkill
          = filterStudents localeCompare students searchTerm selectedDepartment
              selectedCollege selectedSkill"
      if "mset students' = mset students \<and>
          (\<forall>a. filter (tied localeCompare a) students'
                = filter (tied localeCompare a) students)"
      using that by (intro same) simp_all
  qed (rule ranked perm stable)+
qed


lemma consistent_root_collation: "consistent_comparator root_collation"
  unfolding consistent_comparator_def
proof (intro conjI allI impI)
  fix a b :: string
  show "root_collation a b \<le> 0 \<or> root_collation b a \<le> 0"
    by (auto simp: root_collation_def)
next
  fix a b c :: string
  assume "root_collation a b \<le> 0 \<and> root_collation b c \<le> 0"
  then show "root_collation a c \<le> 0"
    by (auto simp: root_collation_def split: if_splits)
qed

lemma student_of_profile_simps:
  "profile_id (profile.extend p (student.fields sk pts)) = profile_id p"
  "user_id (profile.extend p (student.fields sk pts)) = user_id p"
  "full_name (profile.extend p (student.fields sk pts)) = full_name p"
  "user_type (profile.extend p (student.fields sk pts)) = user_type p"
  "profile_visible (profile.extend p (student.fields sk pts)) = profile_visible p"
  "achievement_points (profile.extend p (student.fields sk pts)) = pts"
  "skills (profile.extend p (student.fields sk pts)) = sk"
  by (simp_all add: profile.defs student.defs)

lemma set_filterStudents_subset:
  "set (filterStudents lc students t d c k) \<subseteq> set students"
  by (auto simp: filterStudents_def filteredStudents_filters set_array_sort)

lemma set_filterStudents_all:
  "set (filterStudents lc students [] ''all'' ''all'' ''all'') = set students"
  by (simp add: filterStudents_def filteredStudents_all set_array_sort)

lemma filterStudents_two:
  "filterStudents lc [s1, s2] [] ''all'' ''all'' ''all''
     = (if compareStudents lc s1 s2 \<le> 0 then [s1, s2] else [s2, s1])"
  by (simp add: filterStudents_def filteredStudents_all array_sort_def)

lemma fetchStudents_visible:
  assumes "s \<in> set (fetchStudents db auth_uid)"
  shows "profile_visible s = Some True \<and> user_type s = Student \<and>
         profile_id s \<in> profile_id ` set (profiles db)"
  using assms
  by (auto simp: fetchStudents_def student_of_profile_simps sql_true_def sql_eq_Some_True')

lemma fetchStudents_complete:
  assumes "p \<in> set (profiles db)" and "user_type p = Student"
      and "profile_visible p = Some True"
  shows "profile_id p \<in> profile_id ` set (fetchStudents db (Some u))"
proof -
  let ?s = "profile.extend p (student.fields (embedded_skills db (Some u) p)
              (totalPoints db (Some u) p))"
  from assms have "?s \<in> set (fetchStudents db (Some u))"
    by (auto simp: fetchStudents_def can_select_profile_iff sql_true_def sql_eq_def)
  moreover have "profile_id ?s = profile_id p" by (simp add: student_of_profile_simps)
  ultimately show ?thesis by (metis imageI)
qed

text \<open>
  C3, as the code has it. For every caller, the owner included, the search result holds
  only student profiles whose \<open>profile_visible\<close> is true; and for a signed-in caller the
  unfiltered result holds every such profile, the caller's own among them when it is
  visible.
\<close>

theorem search_lists_visible_profiles_only:
  "(\<forall>s \<in> set (filterStudents lc (fetchStudents db auth_uid) t d c k).
      profile_visible s = Some True \<and> user_type s = Student \<and>
      profile_id s \<in> profile_id ` set (profiles db)) \<and>
   (\<forall>p \<in> set (profiles db).
      user_type p = Student \<and> profile_visible p = Some True \<longrightarrow>
      profile_id p \<in> profile_id `
        set (filterStudents lc (fetchStudents db (Some u)) [] ''all'' ''all'' ''all''))"
  using set_filterStudents_subset [of lc "fetchStudents db auth_uid" t d c k]
  by (auto simp: set_filterStudents_all dest: fetchStudents_visible
           intro: fetchStudents_complete)


lemma fetchStudents_hub_as_bela:
  "map profile_id (fetchStudents hub (Some ''uB'')) = [''pA'']"
  by (simp add: fetchStudents_def profiles_hub asha_def bela_def farid_def
        can_select_profile_iff sql_true_def sql_eq_def student_of_profile_simps)

text \<open>
  C3 as stated fails: Bela, a student with a hidden profile, searches and does not find
  her own profile.
\<close>

theorem search_hides_own_profile_counterexample:
  "bela \<in> set (profiles hub) \<and> user_id bela = ''uB'' \<and> user_type bela = Student \<and>
   profile_id bela = ''pB'' \<and>
   ''pB'' \<notin> profile_id `
      set (filterStudents root_collation (fetchStudents hub (Some ''uB''))
             [] ''all'' ''all'' ''all'')"
proof -
  have "profile_id ` set (fetchStudents hub (Some ''uB''))
          = set (map profile_id (fetchStudents hub (Some ''uB'')))" by simp
  also have "\<dots> = {''pA''}" by (simp only: fetchStudents_hub_as_bela) simp
  finally show ?thesis
    by (simp add: set_filterStudents_all profiles_hub) (simp add: bela_def)
qed

theorem search_lists_visible_profiles_only_witness:
  "asha \<in> set (profiles hub) \<and> user_type asha = Student \<and>
   profile_visible asha = Some True \<and>
   profile_id asha \<in> profile_id `
      set (filterStudents root_collation (fetchStudents hub (Some ''uB''))
             [] ''all'' ''all'' ''all'') \<and>
   list_all (\<lambda>s. profile_visible s = Some True)
      (filterStudents root_collation (fetchStudents hub (Some ''uB''))
         [] ''all'' ''all'' ''all'')"
proof -
  have m: "asha \<in> set (profiles hub)" by (simp add: profiles_hub)
  have t: "user_type asha = Student" and v: "profile_visible asha = Some True"
    by (simp_all add: asha_def)
  from search_lists_visible_profiles_only [of root_collation hub "Some ''uB''" "[]"
         "''all''" "''all''" "''all''" "''uB''"] m t v
  show ?thesis unfolding list_all_iff by blast
qed



lemma fetchStudents_campus:
  "map (\<lambda>s. (full_name s, achievement_points s)) (fetchStudents campus (Some ''uF''))
     = [(''Bela'', 0), (''asha'', 0)]"
  by (simp add: fetchStudents_def campus_def hub_def asha_def bela_def farid_def
        can_select_profile_iff sql_true_def sql_eq_def profile.defs student.defs
        totalPoints_def)

lemma fetchStudents_sams:
  "map (\<lambda>s. (profile_id s, full_name s, achievement_points s))
     (fetchStudents sams (Some ''uF'')) = [(''pS1'', ''Sam'', 0), (''pS2'', ''Sam'', 0)]"
  "map (\<lambda>s. (profile_id s, full_name s, achievement_points s))
     (fetchStudents sams_reversed (Some ''uF'')) = [(''pS2'', ''Sam'', 0), (''pS1'', ''Sam'', 0)]"
  by (simp_all add: fetchStudents_def sams_def sams_reversed_def sam_one_def sam_two_def
        hub_def asha_def bela_def farid_def can_select_profile_iff sql_true_def sql_eq_def
        profile.defs student.defs totalPoints_def)

lemma fetchStudents_hub_with_chen:
  "map (\<lambda>s. (full_name s, achievement_points s)) (fetchStudents hub_with_chen (Some ''uB''))
     = [(''Asha'', 0), (''Chen'', 0)]"
  by (simp add: fetchStudents_def hub_with_chen_def hub_def asha_def bela_def chen_def
        farid_def approved_doc_def pending_doc_def chen_doc_def can_select_profile_iff
        sql_true_def sql_eq_def profile.defs student.defs totalPoints_def
        can_select_document_def owns_profile_def is_faculty_def is_not_null_def)

lemma root_collation_values:
  "root_collation ''asha'' ''Bela'' = - 1" "root_collation ''Bela'' ''asha'' = 1"
  "root_collation ''Sam'' ''Sam'' = 0" "root_collation ''Asha'' ''Chen'' = - 1"
  by code_simp+

lemma asha_not_before_Bela: "\<not> (''asha'' \<le> ''Bela'')"
  by code_simp

lemma filterStudents_campus:
  "map (\<lambda>s. (full_name s, achievement_points s))
     (filterStudents root_collation (fetchStudents campus (Some ''uF''))
        [] ''all'' ''all'' ''all'')
   = [(''asha'', 0), (''Bela'', 0)]"
proof -
  from fetchStudents_campus obtain s1 s2
    where xs: "fetchStudents campus (Some ''uF'') = [s1, s2]"
      and s1: "full_name s1 = ''Bela''" "achievement_points s1 = 0"
      and s2: "full_name s2 = ''asha''" "achievement_points s2 = 0"
    by (auto simp: map_eq_Cons_conv)
  have "compareStudents root_collation s1 s2 = 1"
    by (simp add: compareStudents_def s1 s2 root_collation_values)
  then show ?thesis by (simp add: xs filterStudents_two s1 s2)
qed

lemma filterStudents_sams:
  "map profile_id (filterStudents root_collation (fetchStudents sams (Some ''uF''))
        [] ''all'' ''all'' ''all'') = [''pS1'', ''pS2'']"
  "map profile_id (filterStudents root_collation (fetchStudents sams_reversed (Some ''uF''))
        [] ''all'' ''all'' ''all'') = [''pS2'', ''pS1'']"
proof -
  from fetchStudents_sams(1) obtain s1 s2
    where xs: "fetchStudents sams (Some ''uF'') = [s1, s2]"
      and s1: "profile_id s1 = ''pS1''" "full_name s1 = ''Sam''" "achievement_points s1 = 0"
      and s2: "profile_id s2 = ''pS2''" "full_name s2 = ''Sam''" "achievement_points s2 = 0"
    by (auto simp: map_eq_Cons_conv)
  have "compareStudents root_collation s1 s2 = 0"
    by (simp add: compareStudents_def s1 s2 root_collation_values)
  then show "map profile_id (filterStudents root_collation (fetchStudents sams (Some ''uF''))
        [] ''all'' ''all'' ''all'') = [''pS1'', ''pS2'']"
    by (simp add: xs filterStudents_two s1 s2)
next
  from fetchStudents_sams(2) obtain s1 s2
    where xs: "fetchStudents sams_reversed (Some ''uF'') = [s1, s2]"
      and s1: "profile_id s1 = ''pS2''" "full_name s1 = ''Sam''" "achievement_points s1 = 0"
      and s2: "profile_id s2 = ''pS1''" "full_name s2 = ''Sam''" "achievement_points s2 = 0"
    by (auto simp: map_eq_Cons_conv)
  have "compareStudents root_collation s1 s2 = 0"
    by (simp add: compareStudents_def s1 s2 root_collation_values)
  then show "map profile_id (filterStudents root_collation
        (fetchStudents sams_reversed (Some ''uF'')) [] ''all'' ''all'' ''all'')
      = [''pS2'', ''pS1'']"
    by (simp add: xs filterStudents_two s1 s2)
qed

lemma filterStudents_hub_with_chen:
  "map (\<lambda>s. (full_name s, achievement_points s))
     (filterStudents root_collation (fetchStudents hub_with_chen (Some ''uB''))
        [] ''all'' ''all'' ''all'')
   = [(''Asha'', 0), (''Chen'', 0)]"
proof -
  from fetchStudents_hub_with_chen obtain s1 s2
    where xs: "fetchStudents hub_with_chen (Some ''uB'') = [s1, s2]"
      and s1: "full_name s1 = ''Asha''" "achievement_points s1 = 0"
      and s2: "full_name s2 = ''Chen''" "achievement_points s2 = 0"
    by (auto simp: map_eq_Cons_conv)
  have "compareStudents root_collation s1 s2 = - 1"
    by (simp add: compareStudents_def s1 s2 root_collation_values)
  then show ?thesis by (simp add: xs filterStudents_two s1 s2)
qed

lemma scores_hub_with_chen:
  "get_student_achievement_points (documents hub_with_chen) ''pA'' = Inr 30"
  "get_student_achievement_points (documents hub_with_chen) ''pC'' = Inr 50"
  by (simp_all add: hub_with_chen_def approved_doc_def pending_doc_def chen_doc_def
        get_student_achievement_points_def achievement_where_def sql_true_def
        sql_eq_def sql_gt_def coalesce_def int4_def int8_def)

text \<open>
  C5 as stated fails three times. With equal points, \<open>asha\<close> is listed before \<open>Bela\<close>,
  while by character code \<open>B\<close> comes before \<open>a\<close>. Two students named \<open>Sam\<close> with equal
  points are listed in the order in which the store returns them, whichever it is. And
  for Bela, who cannot read the documents of others, Asha with a score of 30 is listed
  before Chen with a score of 50.
\<close>

theorem filterStudents_ordinal_counterexample:
  "map (\<lambda>s. (full_name s, achievement_points s))
     (filterStudents root_collation (fetchStudents campus (Some ''uF''))
        [] ''all'' ''all'' ''all'')
     = [(''asha'', 0), (''Bela'', 0)] \<and>
   \<not> sorted_wrt ordinal_ranking
        (filterStudents root_collation (fetchStudents campus (Some ''uF''))
           [] ''all'' ''all'' ''all'') \<and>
   mset (profiles sams) = mset (profiles sams_reversed) \<and>
   map profile_id (filterStudents root_collation (fetchStudents sams (Some ''uF''))
        [] ''all'' ''all'' ''all'') = [''pS1'', ''pS2''] \<and>
   map profile_id (filterStudents root_collation (fetchStudents sams_reversed (Some ''uF''))
        [] ''all'' ''all'' ''all'') = [''pS2'', ''pS1''] \<and>
   map (\<lambda>s. (full_name s, achievement_points s))
     (filterStudents root_collation (fetchStudents hub_with_chen (Some ''uB''))
        [] ''all'' ''all'' ''all'')
     = [(''Asha'', 0), (''Chen'', 0)] \<and>
   get_student_achievement_points (documents hub_with_chen) ''pA'' = Inr 30 \<and>
   get_student_achievement_points (documents hub_with_chen) ''pC'' = Inr 50"
proof -
  from filterStudents_campus obtain a b
    where out: "filterStudents root_collation (fetchStudents campus (Some ''uF''))
                  [] ''all'' ''all'' ''all'' = [a, b]"
      and a: "full_name a = ''asha''" "achievement_points a = 0"
      and b: "full_name b = ''Bela''" "achievement_points b = 0"
    by (auto simp: map_eq_Cons_conv)
  have "\<not> ordinal_ranking a b"
    by (simp add: ordinal_ranking_def a b asha_not_before_Bela)
  then have "\<not> sorted_wrt ordinal_ranking
        (filterStudents root_collation (fetchStudents campus (Some ''uF''))
           [] ''all'' ''all'' ''all'')"
    by (simp add: out)
  moreover have "mset (profiles sams) = mset (profiles sams_reversed)"
    by (simp add: sams_def sams_reversed_def)
  ultimately show ?thesis
    by (simp only: filterStudents_campus filterStudents_sams filterStudents_hub_with_chen
          scores_hub_with_chen simp_thms)
qed


theorem filterStudents_ranking_witness:
  "mset (rev (fetchStudents campus (Some ''uF''))) = mset (fetchStudents campus (Some ''uF'')) \<and>
   filterStudents root_collation (rev (fetchStudents campus (Some ''uF'')))
       [] ''all'' ''all'' ''all''
     = filterStudents root_collation (fetchStudents campus (Some ''uF''))
         [] ''all'' ''all'' ''all'' \<and>
   sorted_wrt (\<lambda>a b. achievement_points a > achievement_points b \<or>
                     (achievement_points a = achievement_points b \<and>
                      root_collation (full_name a) (full_name b) \<le> 0))
     (filterStudents root_collation (fetchStudents campus (Some ''uF''))
        [] ''all'' ''all'' ''all'') \<and>
   map full_name (filterStudents root_collation (fetchStudents campus (Some ''uF''))
        [] ''all'' ''all'' ''all'') = [''asha'', ''Bela''] \<and>
   root_collation ''asha'' ''Bela'' \<le> 0"
proof -
  let ?xs = "fetchStudents campus (Some ''uF'')"
  let ?cmp = "compareStudents root_collation"
  note c = consistent_compareStudents [OF consistent_root_collation]
  from fetchStudents_campus obtain s1 s2
    where xs: "?xs = [s1, s2]"
      and s1: "full_name s1 = ''Bela''" "achievement_points s1 = 0"
      and s2: "full_name s2 = ''asha''" "achievement_points s2 = 0"
    by (auto simp: map_eq_Cons_conv)
  have apart: "\<not> ?cmp s1 s2 \<le> 0"
    by (simp add: compareStudents_def s1 s2 root_collation_values)
  have ties: "filter (tied root_collation a) (rev ?xs) = filter (tied root_collation a) ?xs"
    for a
  proof -
    have "\<not> (tied root_collation a s1 \<and> tied root_collation a s2)"
    proof
      assume "tied root_collation a s1 \<and> tied root_collation a s2"
      then have "?cmp s1 a \<le> 0" and "?cmp a s2 \<le> 0" by (simp_all add: tied_def)
      from consistent_comparatorD(2) [OF c this] apart show False by simp
    qed
    then show ?thesis by (auto simp: xs)
  qed
  have names: "map full_name (filterStudents root_collation ?xs [] ''all'' ''all'' ''all'')
               = map fst (map (\<lambda>s. (full_name s, achievement_points s))
                   (filterStudents root_collation ?xs [] ''all'' ''all'' ''all''))"
    by (simp add: comp_def)
  have m: "mset (rev ?xs) = mset ?xs" by simp
  from filterStudents_ranking [OF consistent_root_collation,
          of ?xs "[]" "''all''" "''all''" "''all''" "rev ?xs"] m ties
  have "sorted_wrt (\<lambda>a b. achievement_points a > achievement_points b \<or>
                     (achievement_points a = achievement_points b \<and>
                      root_collation (full_name a) (full_name b) \<le> 0))
          (filterStudents root_collation ?xs [] ''all'' ''all'' ''all'')"
    and "filterStudents root_collation (rev ?xs) [] ''all'' ''all'' ''all''
           = filterStudents root_collation ?xs [] ''all'' ''all'' ''all''"
    by blast+
  with m show ?thesis
    by (simp add: names filterStudents_campus root_collation_values)
qed

subsection \<open>The total score\<close>

lemma totalScore_spec_nonneg: "0 \<le> totalScore_spec docs s"
  unfolding totalScore_spec_def
  by (rule sum_list_nonneg) (auto simp: counts_towards_score_def split: option.splits)

lemma get_student_achievement_points_eq:
  "get_student_achievement_points docs s =
     (if \<not> int8 (totalScore_spec docs s) then Inl (Error ''bigint out of range'')
      else if \<not> int4 (totalScore_spec docs s) then Inl (Error ''integer out of range'')
      else Inr (totalScore_spec docs s))"
  unfolding get_student_achievement_points_def totalScore_spec_def
  by (simp add: coalesce_sql_sum sql_true_achievement_where comp_def Let_def)

lemma totalScore_spec_skips:
  assumes "status d \<noteq> Approved"
  shows "totalScore_spec (ds @ [d] @ ds') s = totalScore_spec (ds @ ds') s"
  using assms by (simp add: totalScore_spec_def counts_towards_score_def)

text \<open>
  C1, as the code has it. For every table of documents and every student,
  \<open>get_student_achievement_points\<close> returns the sum of \<open>points_awarded\<close> over exactly the
  documents of that student that are approved and have positive points, provided the
  sum is at most 2147483647, the largest value of its return type; for a larger sum
  the call fails. It is computed from the document table alone, and a document that is
  pending or rejected changes nothing.
\<close>

theorem get_student_achievement_points_is_sum:
  "(totalScore_spec docs s \<le> 2147483647 \<longrightarrow>
      get_student_achievement_points docs s = Inr (totalScore_spec docs s)) \<and>
   (2147483647 < totalScore_spec docs s \<longrightarrow> isl (get_student_achievement_points docs s)) \<and>
   get_student_achievement_points (ds @ [d\<lparr>status := Pending\<rparr>] @ ds') s
     = get_student_achievement_points (ds @ ds') s \<and>
   get_student_achievement_points (ds @ [d\<lparr>status := Rejected\<rparr>] @ ds') s
     = get_student_achievement_points (ds @ ds') s"
proof -
  from totalScore_spec_nonneg [of docs s]
  have "totalScore_spec docs s \<le> 2147483647 \<Longrightarrow>
          int8 (totalScore_spec docs s) \<and> int4 (totalScore_spec docs s)"
    and "2147483647 < totalScore_spec docs s \<Longrightarrow> \<not> int4 (totalScore_spec docs s)"
    by (simp_all add: int4_def int8_def)
  moreover have "totalScore_spec (ds @ [d\<lparr>status := Pending\<rparr>] @ ds') s
                   = totalScore_spec (ds @ ds') s"
    and "totalScore_spec (ds @ [d\<lparr>status := Rejected\<rparr>] @ ds') s
           = totalScore_spec (ds @ ds') s"
    by (rule totalScore_spec_skips, simp)+
  ultimately show ?thesis
    by (auto simp: get_student_achievement_points_eq)
qed

lemma totalPoints_hub_as_bela: "totalPoints hub (Some ''uB'') asha = 0"
  by (simp add: totalPoints_def hub_def asha_def bela_def farid_def approved_doc_def
        pending_doc_def can_select_document_def owns_profile_def is_faculty_def
        sql_true_def sql_eq_def is_not_null_def)

lemma totalScore_spec_hub: "totalScore_spec (documents hub) ''pA'' = 30"
  by (simp add: documents_hub approved_doc_def pending_doc_def totalScore_spec_def
        counts_towards_score_def)

lemma totalScore_spec_top_marks: "totalScore_spec top_marks ''pA'' = 4294967294"
  by (simp add: top_marks_def approved_doc_def totalScore_spec_def counts_towards_score_def)

text \<open>
  C1 as stated fails: two approved documents with 2147483647 points each have the sum
  4294967294, and the function fails instead of returning it. The sum that the search
  computes for itself is another number again: Bela is shown 0 points for Asha, whose
  approved points are 30.
\<close>

theorem get_student_achievement_points_counterexample:
  "totalScore_spec top_marks ''pA'' = 4294967294 \<and>
   get_student_achievement_points top_marks ''pA'' = Inl (Error ''integer out of range'') \<and>
   totalScore_spec (documents hub) (profile_id asha) = 30 \<and>
   totalPoints hub (Some ''uB'') asha = 0"
  by (simp add: get_student_achievement_points_eq totalScore_spec_top_marks
        totalPoints_hub_as_bela int4_def int8_def)
     (simp add: asha_def totalScore_spec_hub)

theorem get_student_achievement_points_is_sum_witness:
  "totalScore_spec (documents hub) ''pA'' \<le> 2147483647 \<and>
   get_student_achievement_points (documents hub) ''pA'' = Inr 30 \<and>
   2147483647 < totalScore_spec top_marks ''pA'' \<and>
   isl (get_student_achievement_points top_marks ''pA'')"
  using get_student_achievement_points_is_sum [of "documents hub" "''pA''" "[]" approved_doc "[]"]
        get_student_achievement_points_is_sum [of top_marks "''pA''" "[]" approved_doc "[]"]
  by (simp add: totalScore_spec_hub totalScore_spec_top_marks)

end
